theory Spec2Isabelle
  imports Main "HOL-Library.Sublist"
begin

section \<open>Meeting-preparation workflow (app.py)\<close>

text \<open>
  The program chains four prompt-building stages over a dictionary-shaped state. Each stage
  formats an f-string from the state, calls the search tool and/or the language model, and
  returns a one-key partial update. This theory embeds the validation helper, the four node
  functions, the graph built by \<^verbatim>\<open>build_workflow\<close> and the initial state of the main block.
\<close>

subsection \<open>Python values and strings\<close>

text \<open>
  A Python \<^verbatim>\<open>str\<close> is a sequence of Unicode code points: \<^verbatim>\<open>len\<close> and slicing count code
  points, so a string is a list of naturals. ASCII text is written with \<open>asc\<close>; every other
  character of the source is given by its code point.
\<close>

type_synonym ustr = "nat list"

definition asc :: "string \<Rightarrow> ustr" where
  "asc s = map of_char s"

definition nl :: ustr where
  "nl = [0x0A]"

definition apos :: ustr where
  "apos = [0x27]"

definition dquote :: ustr where
  "dquote = [0x22]"

text \<open>The values stored in a \<^verbatim>\<open>MeetingState\<close>: strings, and the integer duration.\<close>

datatype pyval = PyStr ustr | PyInt int

text \<open>\<^verbatim>\<open>str(n)\<close> for an integer: decimal digits, with a minus sign when negative.\<close>

fun digits :: "nat \<Rightarrow> ustr" where
  "digits n = (if n < 10 then [0x30 + n] else digits (n div 10) @ [0x30 + n mod 10])"

declare digits.simps [simp del]

definition str_int :: "int \<Rightarrow> ustr" where
  "str_int i = (if i < 0 then asc ''-'' @ digits (nat (- i)) else digits (nat i))"

text \<open>What an f-string field \<^verbatim>\<open>{v}\<close> prints for a value.\<close>

fun fmt :: "pyval \<Rightarrow> ustr" where
  "fmt (PyStr s) = s"
| "fmt (PyInt i) = str_int i"

subsection \<open>Exceptions\<close>

text \<open>
  Values of this type are instances of \<^verbatim>\<open>Exception\<close>: a missing dictionary key, a failure
  raised by the search tool or the language model (carrying its \<^verbatim>\<open>str\<close>), and a malformed
  graph. \<^verbatim>\<open>str(KeyError(k))\<close> is the key in single quotes.
\<close>

datatype exn = KeyError string | ClientError ustr | GraphError string

fun str_exn :: "exn \<Rightarrow> ustr" where
  "str_exn (KeyError k) = apos @ asc k @ apos"
| "str_exn (ClientError m) = m"
| "str_exn (GraphError n) = asc n"

subsection \<open>State and f-strings\<close>

text \<open>
  \<^verbatim>\<open>MeetingState\<close> is a \<^verbatim>\<open>TypedDict\<close>, at run time a plain dictionary from key names to
  values; a node's return value is a dictionary too.
\<close>

type_synonym state = "string \<rightharpoonup> pyval"

text \<open>
  An f-string is a sequence of parts evaluated left to right: literal text,
  \<^verbatim>\<open>{state['k']}\<close> (raises \<^verbatim>\<open>KeyError\<close> when the key is missing),
  \<^verbatim>\<open>{state.get('k', d)}\<close> (the default \<open>d\<close> only when the key is missing),
  an already computed string such as \<^verbatim>\<open>{search_results[:3000]}\<close>, and \<^verbatim>\<open>{e}\<close> for a caught
  exception.
\<close>

datatype part = Lit ustr | Item string | GetD string ustr | Expr ustr | Err exn

fun fstring :: "part list \<Rightarrow> state \<Rightarrow> exn + ustr" where
  "fstring [] state = Inr []"
| "fstring (Lit t # ps) state =
     (case fstring ps state of Inl e \<Rightarrow> Inl e | Inr r \<Rightarrow> Inr (t @ r))"
| "fstring (Item k # ps) state =
     (case state k of
        None \<Rightarrow> Inl (KeyError k)
      | Some v \<Rightarrow> (case fstring ps state of Inl e \<Rightarrow> Inl e | Inr r \<Rightarrow> Inr (fmt v @ r)))"
| "fstring (GetD k d # ps) state =
     (case fstring ps state of
        Inl e \<Rightarrow> Inl e
      | Inr r \<Rightarrow> Inr ((case state k of None \<Rightarrow> d | Some v \<Rightarrow> fmt v) @ r))"
| "fstring (Expr t # ps) state =
     (case fstring ps state of Inl e \<Rightarrow> Inl e | Inr r \<Rightarrow> Inr (t @ r))"
| "fstring (Err x # ps) state =
     (case fstring ps state of Inl e \<Rightarrow> Inl e | Inr r \<Rightarrow> Inr (str_exn x @ r))"

subsection \<open>External calls\<close>

text \<open>
  The search tool and the language model are calls to the outside world. A computation takes
  the world \<open>'w\<close> and returns either an exception or a value, with the world after the call.
\<close>

type_synonym ('w, 'a) io = "'w \<Rightarrow> (exn + 'a) \<times> 'w"

definition returnE :: "'a \<Rightarrow> ('w, 'a) io" where
  "returnE x = (\<lambda>w. (Inr x, w))"

definition liftE :: "exn + 'a \<Rightarrow> ('w, 'a) io" where
  "liftE r = (\<lambda>w. (r, w))"

definition bindE :: "('w, 'a) io \<Rightarrow> ('a \<Rightarrow> ('w, 'b) io) \<Rightarrow> ('w, 'b) io" where
  "bindE m f = (\<lambda>w. case m w of (Inl e, w') \<Rightarrow> (Inl e, w') | (Inr x, w') \<Rightarrow> f x w')"

text \<open>\<^verbatim>\<open>try: m except Exception as e: h e\<close>\<close>

definition tryE :: "('w, 'a) io \<Rightarrow> (exn \<Rightarrow> ('w, 'a) io) \<Rightarrow> ('w, 'a) io" where
  "tryE m h = (\<lambda>w. case m w of (Inl e, w') \<Rightarrow> h e w' | (Inr x, w') \<Rightarrow> (Inr x, w'))"

text \<open>
  The two module-level tools: \<^verbatim>\<open>search_tool.run(query)\<close> and
  \<^verbatim>\<open>llm([HumanMessage(content=prompt)]).content\<close>.
\<close>

record 'w tools =
  search_tool :: "ustr \<Rightarrow> ('w, ustr) io"
  llm :: "ustr \<Rightarrow> ('w, ustr) io"

subsection \<open>Input validation\<close>

text \<open>
  \<^verbatim>\<open>str.isspace\<close> on one character, and \<^verbatim>\<open>str.strip()\<close>, which removes the whitespace at
  both ends.
\<close>

definition isspace :: "nat \<Rightarrow> bool" where
  "isspace c \<longleftrightarrow>
     (0x09 \<le> c \<and> c \<le> 0x0D) \<or> (0x1C \<le> c \<and> c \<le> 0x20) \<or> c = 0x85 \<or> c = 0xA0 \<or> c = 0x1680 \<or>
     (0x2000 \<le> c \<and> c \<le> 0x200A) \<or> c = 0x2028 \<or> c = 0x2029 \<or> c = 0x202F \<or> c = 0x205F \<or>
     c = 0x3000"

definition strip :: "ustr \<Rightarrow> ustr" where
  "strip s = rev (dropWhile isspace (rev (dropWhile isspace s)))"

definition validate_inputs :: "ustr \<Rightarrow> ustr \<Rightarrow> ustr \<Rightarrow> ustr option" where
  "validate_inputs company objective attendees =
     (if strip company = [] then
        Some (asc ''Nome da empresa '' @ [0xE9] @ asc '' obrigat'' @ [0xF3] @ asc ''rio'')
      else if strip objective = [] then
        Some (asc ''Objetivo da reuni'' @ [0xE3] @ asc ''o '' @ [0xE9] @ asc '' obrigat'' @ [0xF3] @ asc ''rio'')
      else if strip attendees = [] then
        Some (asc ''Lista de participantes '' @ [0xE9] @ asc '' obrigat'' @ [0xF3] @ asc ''ria'')
      else if length company < 2 then
        Some (asc ''Nome da empresa deve ter pelo menos 2 caracteres'')
      else None)"

subsection \<open>The four nodes\<close>

text \<open>Line 96: the message logged before the \<^verbatim>\<open>try\<close> block is entered.\<close>

definition context_log_message :: "part list" where
  "context_log_message =
    [Lit (asc ''Iniciando an'' @ [0xE1] @ asc ''lise de contexto para: ''),
     Item ''company_name'']"

text \<open>Line 98: the search query of the context stage.\<close>

definition context_query :: "part list" where
  "context_query =
    [Lit (dquote),
     Item ''company_name'',
     Lit (dquote @ asc '' not'' @ [0xED] @ asc ''cias recentes, produtos e servi'' @ [0xE7] @ asc ''os 2024 2025'')]"

text \<open>Lines 101-118: the prompt of the context stage.\<close>

definition context_prompt :: "ustr \<Rightarrow> part list" where
  "context_prompt search_results =
    [Lit (nl),
     Lit (asc ''        Voc'' @ [0xEA] @ asc '' '' @ [0xE9] @ asc '' um analista de neg'' @ [0xF3] @ asc ''cios s'' @ [0xEA] @ asc ''nior. Sua tarefa '' @ [0xE9] @ asc '' analisar o contexto para uma reuni'' @ [0xE3] @ asc ''o com a empresa '' @ apos),
     Item ''company_name'',
     Lit (apos @ asc ''.'' @ nl),
     Lit (nl),
     Lit (asc ''        **DADOS DA REUNI'' @ [0xC3] @ asc ''O:**'' @ nl),
     Lit (asc ''        - Objetivo: ''),
     Item ''meeting_objective'',
     Lit (nl),
     Lit (asc ''        - Participantes: ''),
     Item ''attendees'',
     Lit (nl),
     Lit (asc ''        - Dura'' @ [0xE7, 0xE3] @ asc ''o: ''),
     Item ''duration'',
     Lit (asc '' minutos'' @ nl),
     Lit (nl),
     Lit (asc ''        **RESULTADOS DA PESQUISA WEB:**'' @ nl),
     Lit (asc ''        ''),
     Expr (take 3000 search_results),
     Lit (nl),
     Lit (nl),
     Lit (asc ''        **INSTRU'' @ [0xC7, 0xC3] @ asc ''O:**'' @ nl),
     Lit (asc ''        Com base nos dados, gere uma an'' @ [0xE1] @ asc ''lise de contexto concisa em markdown, incluindo:'' @ nl),
     Lit (asc ''        1.  **Perfil da Empresa:** Setor, porte e posicionamento de mercado.'' @ nl),
     Lit (asc ''        2.  **Not'' @ [0xED] @ asc ''cias Relevantes:** Principais acontecimentos recentes.'' @ nl),
     Lit (asc ''        3.  **Produtos/Servi'' @ [0xE7] @ asc ''os Chave:** O que a empresa oferece.'' @ nl),
     Lit (asc ''        4.  **Relev'' @ [0xE2] @ asc ''ncia para a Reuni'' @ [0xE3] @ asc ''o:** Como este contexto impacta o objetivo da reuni'' @ [0xE3] @ asc ''o.'' @ nl),
     Lit (asc ''        '')]"

text \<open>Line 126: the text stored when the context stage fails.\<close>

definition context_failure :: "exn \<Rightarrow> part list" where
  "context_failure e =
    [Lit ([0x26A0, 0xFE0F] @ asc '' Falha ao analisar o contexto da empresa: ''),
     Err e]"

text \<open>Line 135: the search query of the industry stage.\<close>

definition industry_query :: "part list" where
  "industry_query =
    [Lit (asc ''An'' @ [0xE1] @ asc ''lise de mercado e tend'' @ [0xEA] @ asc ''ncias para o setor da empresa '' @ apos),
     Item ''company_name'',
     Lit (apos)]"

text \<open>Lines 138-153: the prompt of the industry stage.\<close>

definition industry_prompt :: "ustr \<Rightarrow> part list" where
  "industry_prompt industry_results =
    [Lit (nl),
     Lit (asc ''        Como analista de mercado, sua tarefa '' @ [0xE9] @ asc '' analisar a ind'' @ [0xFA] @ asc ''stria da empresa '' @ apos),
     Item ''company_name'',
     Lit (apos @ asc ''.'' @ nl),
     Lit (nl),
     Lit (asc ''        **CONTEXTO DA REUNI'' @ [0xC3] @ asc ''O:**'' @ nl),
     Lit (asc ''        - Objetivo: ''),
     Item ''meeting_objective'',
     Lit (nl),
     Lit (nl),
     Lit (asc ''        **DADOS DE MERCADO (PESQUISA WEB):**'' @ nl),
     Lit (asc ''        ''),
     Expr (take 3000 industry_results),
     Lit (nl),
     Lit (nl),
     Lit (asc ''        **INSTRU'' @ [0xC7, 0xC3] @ asc ''O:**'' @ nl),
     Lit (asc ''        Forne'' @ [0xE7] @ asc ''a uma an'' @ [0xE1] @ asc ''lise da ind'' @ [0xFA] @ asc ''stria em markdown, focando em:'' @ nl),
     Lit (asc ''        1.  **Panorama do Setor:** Tamanho, crescimento e caracter'' @ [0xED] @ asc ''sticas.'' @ nl),
     Lit (asc ''        2.  **Tend'' @ [0xEA] @ asc ''ncias Atuais:** Tecnol'' @ [0xF3] @ asc ''gicas, de consumo ou regulat'' @ [0xF3] @ asc ''rias.'' @ nl),
     Lit (asc ''        3.  **Cen'' @ [0xE1] @ asc ''rio Competitivo:** Principais concorrentes e seus diferenciais.'' @ nl),
     Lit (asc ''        4.  **Oportunidades e Amea'' @ [0xE7] @ asc ''as (SWOT):** Fatores que podem impactar a reuni'' @ [0xE3] @ asc ''o.'' @ nl),
     Lit (asc ''        '')]"

text \<open>Line 161: the text stored when the industry stage fails.\<close>

definition industry_failure :: "exn \<Rightarrow> part list" where
  "industry_failure e =
    [Lit ([0x26A0, 0xFE0F] @ asc '' Falha ao analisar a ind'' @ [0xFA] @ asc ''stria: ''),
     Err e]"

text \<open>Lines 170-189: the prompt of the strategy stage.\<close>

definition strategy_prompt :: "part list" where
  "strategy_prompt =
    [Lit (nl),
     Lit (asc ''        Voc'' @ [0xEA] @ asc '' '' @ [0xE9] @ asc '' um consultor estrat'' @ [0xE9] @ asc ''gico. Sua miss'' @ [0xE3] @ asc ''o '' @ [0xE9] @ asc '' criar uma estrat'' @ [0xE9] @ asc ''gia para a reuni'' @ [0xE3] @ asc ''o com base nas an'' @ [0xE1] @ asc ''lises.'' @ nl),
     Lit (nl),
     Lit (asc ''        **AN'' @ [0xC1] @ asc ''LISE DE CONTEXTO:**'' @ nl),
     Lit (asc ''        ''),
     GetD ''context_analysis'' (asc ''N'' @ [0xE3] @ asc ''o dispon'' @ [0xED] @ asc ''vel''),
     Lit (nl),
     Lit (nl),
     Lit (asc ''        **AN'' @ [0xC1] @ asc ''LISE DE IND'' @ [0xDA] @ asc ''STRIA:**'' @ nl),
     Lit (asc ''        ''),
     GetD ''industry_analysis'' (asc ''N'' @ [0xE3] @ asc ''o dispon'' @ [0xED] @ asc ''vel''),
     Lit (nl),
     Lit (nl),
     Lit (asc ''        **PAR'' @ [0xC2] @ asc ''METROS DA REUNI'' @ [0xC3] @ asc ''O:**'' @ nl),
     Lit (asc ''        - Dura'' @ [0xE7, 0xE3] @ asc ''o: ''),
     Item ''duration'',
     Lit (asc '' minutos'' @ nl),
     Lit (asc ''        - Objetivo: ''),
     Item ''meeting_objective'',
     Lit (nl),
     Lit (asc ''        - Participantes: ''),
     Item ''attendees'',
     Lit (nl),
     Lit (nl),
     Lit (asc ''        **INSTRU'' @ [0xC7, 0xC3] @ asc ''O:**'' @ nl),
     Lit (asc ''        Desenvolva uma estrat'' @ [0xE9] @ asc ''gia de reuni'' @ [0xE3] @ asc ''o em markdown, contendo:'' @ nl),
     Lit (asc ''        1.  **Agenda Detalhada:** T'' @ [0xF3] @ asc ''picos com tempo alocado (total: ''),
     Item ''duration'',
     Lit (asc '' min).'' @ nl),
     Lit (asc ''        2.  **Estrat'' @ [0xE9] @ asc ''gia de Abordagem:** Mensagens-chave a serem comunicadas e perguntas a serem feitas.'' @ nl),
     Lit (asc ''        3.  **Plano de A'' @ [0xE7, 0xE3] @ asc ''o e Pr'' @ [0xF3] @ asc ''ximos Passos:** O que fazer ap'' @ [0xF3] @ asc ''s a reuni'' @ [0xE3] @ asc ''o.'' @ nl),
     Lit (asc ''        '')]"

text \<open>Line 197: the text stored when the strategy stage fails.\<close>

definition strategy_failure :: "exn \<Rightarrow> part list" where
  "strategy_failure e =
    [Lit ([0x26A0, 0xFE0F] @ asc '' Falha ao desenvolver a estrat'' @ [0xE9] @ asc ''gia: ''),
     Err e]"

text \<open>Lines 206-232: the prompt of the brief stage.\<close>

definition brief_prompt :: "part list" where
  "brief_prompt =
    [Lit (nl),
     Lit (asc ''        Como assistente executivo, compile um briefing final para a reuni'' @ [0xE3] @ asc ''o com '' @ apos),
     Item ''company_name'',
     Lit (apos @ asc ''.'' @ nl),
     Lit (nl),
     Lit (asc ''        **DADOS COMPILADOS:**'' @ nl),
     Lit (asc ''        - Contexto: ''),
     GetD ''context_analysis'' (asc ''N'' @ [0xE3] @ asc ''o dispon'' @ [0xED] @ asc ''vel''),
     Lit (nl),
     Lit (asc ''        - Ind'' @ [0xFA] @ asc ''stria: ''),
     GetD ''industry_analysis'' (asc ''N'' @ [0xE3] @ asc ''o dispon'' @ [0xED] @ asc ''vel''),
     Lit (nl),
     Lit (asc ''        - Estrat'' @ [0xE9] @ asc ''gia: ''),
     GetD ''strategy'' (asc ''N'' @ [0xE3] @ asc ''o dispon'' @ [0xED] @ asc ''vel''),
     Lit (nl),
     Lit (nl),
     Lit (asc ''        **INSTRU'' @ [0xC7, 0xC3] @ asc ''O:**'' @ nl),
     Lit (asc ''        Crie um briefing executivo completo e bem estruturado em markdown. O documento deve ser claro, conciso e visualmente organizado. Use emojis para destacar se'' @ [0xE7, 0xF5] @ asc ''es.'' @ nl),
     Lit (nl),
     Lit (asc ''        # '' @ [0x1F4CB] @ asc '' BRIEFING EXECUTIVO: Reuni'' @ [0xE3] @ asc ''o com ''),
     Item ''company_name'',
     Lit (nl),
     Lit (nl),
     Lit (asc ''        ## '' @ [0x1F3AF] @ asc '' 1. RESUMO DA REUNI'' @ [0xC3] @ asc ''O'' @ nl),
     Lit (asc ''        - **Objetivo:** ''),
     Item ''meeting_objective'',
     Lit (nl),
     Lit (asc ''        - **Participantes:** ''),
     Item ''attendees'',
     Lit (nl),
     Lit (asc ''        - **Dura'' @ [0xE7, 0xE3] @ asc ''o:** ''),
     Item ''duration'',
     Lit (asc '' minutos'' @ nl),
     Lit (nl),
     Lit (asc ''        ## '' @ [0x1F3E2] @ asc '' 2. CONTEXTO DA EMPRESA'' @ nl),
     Lit (asc ''        ''),
     GetD ''context_analysis'' (asc ''An'' @ [0xE1] @ asc ''lise n'' @ [0xE3] @ asc ''o dispon'' @ [0xED] @ asc ''vel.''),
     Lit (nl),
     Lit (nl),
     Lit (asc ''        ## '' @ [0x1F4CA] @ asc '' 3. AN'' @ [0xC1] @ asc ''LISE DE MERCADO'' @ nl),
     Lit (asc ''        ''),
     GetD ''industry_analysis'' (asc ''An'' @ [0xE1] @ asc ''lise n'' @ [0xE3] @ asc ''o dispon'' @ [0xED] @ asc ''vel.''),
     Lit (nl),
     Lit (nl),
     Lit (asc ''        ## '' @ [0x1F680] @ asc '' 4. ESTRAT'' @ [0xC9] @ asc ''GIA E AGENDA'' @ nl),
     Lit (asc ''        ''),
     GetD ''strategy'' (asc ''Estrat'' @ [0xE9] @ asc ''gia n'' @ [0xE3] @ asc ''o dispon'' @ [0xED] @ asc ''vel.''),
     Lit (nl),
     Lit (asc ''        '')]"

text \<open>Line 240: the text stored when the brief stage fails.\<close>

definition brief_failure :: "exn \<Rightarrow> part list" where
  "brief_failure e =
    [Lit ([0x26A0, 0xFE0F] @ asc '' Falha ao criar o briefing: ''),
     Err e]"

text \<open>
  Each node returns the dictionary holding its one output key. The log message of the context
  node is formatted before its \<^verbatim>\<open>try\<close> block; everything else runs inside the block, whose
  handler catches every \<^verbatim>\<open>Exception\<close>.
\<close>

definition context_analysis_node :: "'w tools \<Rightarrow> state \<Rightarrow> ('w, state) io" where
  "context_analysis_node t state =
     bindE (liftE (fstring context_log_message state)) (\<lambda>_.
     tryE
       (bindE (liftE (fstring context_query state)) (\<lambda>query.
        bindE (search_tool t query) (\<lambda>search_results.
        bindE (liftE (fstring (context_prompt search_results) state)) (\<lambda>prompt.
        bindE (llm t prompt) (\<lambda>content.
        returnE [''context_analysis'' \<mapsto> PyStr content])))))
       (\<lambda>e. bindE (liftE (fstring (context_failure e) state)) (\<lambda>msg.
            returnE [''context_analysis'' \<mapsto> PyStr msg])))"

definition industry_analysis_node :: "'w tools \<Rightarrow> state \<Rightarrow> ('w, state) io" where
  "industry_analysis_node t state =
     tryE
       (bindE (liftE (fstring industry_query state)) (\<lambda>industry_query.
        bindE (search_tool t industry_query) (\<lambda>industry_results.
        bindE (liftE (fstring (industry_prompt industry_results) state)) (\<lambda>prompt.
        bindE (llm t prompt) (\<lambda>content.
        returnE [''industry_analysis'' \<mapsto> PyStr content])))))
       (\<lambda>e. bindE (liftE (fstring (industry_failure e) state)) (\<lambda>msg.
            returnE [''industry_analysis'' \<mapsto> PyStr msg]))"

definition strategy_development_node :: "'w tools \<Rightarrow> state \<Rightarrow> ('w, state) io" where
  "strategy_development_node t state =
     tryE
       (bindE (liftE (fstring strategy_prompt state)) (\<lambda>prompt.
        bindE (llm t prompt) (\<lambda>content.
        returnE [''strategy'' \<mapsto> PyStr content])))
       (\<lambda>e. bindE (liftE (fstring (strategy_failure e) state)) (\<lambda>msg.
            returnE [''strategy'' \<mapsto> PyStr msg]))"

definition executive_brief_node :: "'w tools \<Rightarrow> state \<Rightarrow> ('w, state) io" where
  "executive_brief_node t state =
     tryE
       (bindE (liftE (fstring brief_prompt state)) (\<lambda>prompt.
        bindE (llm t prompt) (\<lambda>content.
        returnE [''executive_brief'' \<mapsto> PyStr content])))
       (\<lambda>e. bindE (liftE (fstring (brief_failure e) state)) (\<lambda>msg.
            returnE [''executive_brief'' \<mapsto> PyStr msg]))"

subsection \<open>The graph\<close>

text \<open>
  \<^verbatim>\<open>build_workflow\<close> registers the four nodes, the entry point and the edges on a
  \<^verbatim>\<open>StateGraph\<close>, in this order.
\<close>

type_synonym 'w node = "state \<Rightarrow> ('w, state) io"

record 'w graph =
  nodes :: "(string \<times> 'w node) list"
  entry_point :: "string option"
  edges :: "(string \<times> string) list"

definition StateGraph :: "'w graph" where
  "StateGraph = \<lparr>nodes = [], entry_point = None, edges = []\<rparr>"

definition END :: string where
  "END = ''__end__''"

definition add_node :: "string \<Rightarrow> 'w node \<Rightarrow> 'w graph \<Rightarrow> 'w graph" where
  "add_node name f g = g\<lparr>nodes := nodes g @ [(name, f)]\<rparr>"

definition set_entry_point :: "string \<Rightarrow> 'w graph \<Rightarrow> 'w graph" where
  "set_entry_point name g = g\<lparr>entry_point := Some name\<rparr>"

definition add_edge :: "string \<Rightarrow> string \<Rightarrow> 'w graph \<Rightarrow> 'w graph" where
  "add_edge a b g = g\<lparr>edges := edges g @ [(a, b)]\<rparr>"

definition build_workflow :: "'w tools \<Rightarrow> 'w graph" where
  "build_workflow t =
     foldl (\<lambda>workflow op. op workflow) StateGraph
       [add_node ''context'' (context_analysis_node t),
        add_node ''industry'' (industry_analysis_node t),
        add_node ''strategy'' (strategy_development_node t),
        add_node ''brief'' (executive_brief_node t),
        set_entry_point ''context'',
        add_edge ''context'' ''industry'',
        add_edge ''industry'' ''strategy'',
        add_edge ''strategy'' ''brief'',
        add_edge ''brief'' END]"

text \<open>
  Modelled from the spec: the graph runtime behind \<^verbatim>\<open>compile()\<close> and \<^verbatim>\<open>invoke\<close> belongs to
  a library, not to the repository. Following section 4.5 of the specification, the runner
  starts at the entry point, hands each node the accumulated state, merges the partial update
  the node returns into that state, and follows the node's edge until the terminal marker.
  An exception raised by a node ends the run. The runner records which node ran with which
  update. The first argument bounds the number of steps; \<open>None\<close> means the bound was reached.
\<close>

type_synonym trace = "(string \<times> state) list"

fun run_graph ::
  "nat \<Rightarrow> 'w graph \<Rightarrow> string \<Rightarrow> state \<Rightarrow> trace \<Rightarrow> 'w \<Rightarrow> (exn + state \<times> trace) option \<times> 'w" where
  "run_graph 0 g n state tr w = (None, w)"
| "run_graph (Suc fuel) g n state tr w =
     (if n = END then (Some (Inr (state, tr)), w)
      else case map_of (nodes g) n of
        None \<Rightarrow> (Some (Inl (GraphError n)), w)
      | Some f \<Rightarrow>
          (case f state w of
             (Inl e, w') \<Rightarrow> (Some (Inl e), w')
           | (Inr update, w') \<Rightarrow>
               (case map_of (edges g) n of
                  None \<Rightarrow> (Some (Inl (GraphError n)), w')
                | Some n' \<Rightarrow> run_graph fuel g n' (state ++ update) (tr @ [(n, update)]) w')))"

definition invoke ::
  "nat \<Rightarrow> 'w graph \<Rightarrow> state \<Rightarrow> 'w \<Rightarrow> (exn + state \<times> trace) option \<times> 'w" where
  "invoke fuel g initial w =
     (case entry_point g of
        None \<Rightarrow> (Some (Inl (GraphError [])), w)
      | Some n \<Rightarrow> run_graph fuel g n initial [] w)"

subsection \<open>The initial state\<close>

text \<open>
  Lines 352-363: the dictionary the main block builds from the form fields; the timestamp
  \<^verbatim>\<open>datetime.now().isoformat()\<close> is a parameter.
\<close>

definition initial_state :: "ustr \<Rightarrow> ustr \<Rightarrow> ustr \<Rightarrow> int \<Rightarrow> ustr \<Rightarrow> ustr \<Rightarrow> state" where
  "initial_state company_name meeting_objective attendees meeting_duration focus_areas now =
     [''company_name'' \<mapsto> PyStr company_name,
      ''meeting_objective'' \<mapsto> PyStr meeting_objective,
      ''attendees'' \<mapsto> PyStr attendees,
      ''duration'' \<mapsto> PyInt meeting_duration,
      ''focus_areas'' \<mapsto> PyStr (if focus_areas = [] then asc ''Nenhuma '' @ [0xE1] @ asc ''rea espec'' @ [0xED] @ asc ''fica definida'' else focus_areas),
      ''context_analysis'' \<mapsto> PyStr [],
      ''industry_analysis'' \<mapsto> PyStr [],
      ''strategy'' \<mapsto> PyStr [],
      ''executive_brief'' \<mapsto> PyStr [],
      ''timestamp'' \<mapsto> PyStr now]"

subsection \<open>Vocabulary of the properties\<close>

text \<open>A string is blank when it is empty or consists of whitespace only.\<close>

definition blank :: "ustr \<Rightarrow> bool" where
  "blank s \<longleftrightarrow> list_all isspace s"

text \<open>
  The warning sign that opens every failure text (U+26A0 followed by the variation selector
  U+FE0F), the wording of the four failure texts, and the value a failed stage stores.
\<close>

definition warning_marker :: ustr where
  "warning_marker = [0x26A0, 0xFE0F]"

definition context_failed :: ustr where
  "context_failed = asc '' Falha ao analisar o contexto da empresa: ''"

definition industry_failed :: ustr where
  "industry_failed = asc '' Falha ao analisar a ind'' @ [0xFA] @ asc ''stria: ''"

definition strategy_failed :: ustr where
  "strategy_failed = asc '' Falha ao desenvolver a estrat'' @ [0xE9] @ asc ''gia: ''"

definition brief_failed :: ustr where
  "brief_failed = asc '' Falha ao criar o briefing: ''"

definition placeholder :: "ustr \<Rightarrow> exn \<Rightarrow> pyval" where
  "placeholder what e = PyStr (warning_marker @ what @ str_exn e)"

text \<open>
  Failure containment of one stage. For a stage that searches: whenever the query can be
  formatted, a search that raises \<open>e\<close> makes the node return its field holding the placeholder
  for \<open>e\<close>; so does a completion that raises \<open>e\<close>; and when both calls succeed the field holds
  the completion. For a stage without search the same with the completion call alone. In each
  case the node returns normally, in the world the last call left.
\<close>

definition search_stage_contained ::
  "'w tools \<Rightarrow> 'w node \<Rightarrow> string \<Rightarrow> part list \<Rightarrow> (ustr \<Rightarrow> part list) \<Rightarrow> ustr \<Rightarrow> bool" where
  "search_stage_contained t node field query prompt what \<longleftrightarrow>
     (\<forall>state w q. fstring query state = Inr q \<longrightarrow>
        (\<forall>e w1. search_tool t q w = (Inl e, w1) \<longrightarrow>
           node state w = (Inr [field \<mapsto> placeholder what e], w1)) \<and>
        (\<forall>r w1 p. search_tool t q w = (Inr r, w1) \<longrightarrow> fstring (prompt r) state = Inr p \<longrightarrow>
           (\<forall>e w2. llm t p w1 = (Inl e, w2) \<longrightarrow>
              node state w = (Inr [field \<mapsto> placeholder what e], w2)) \<and>
           (\<forall>c w2. llm t p w1 = (Inr c, w2) \<longrightarrow>
              node state w = (Inr [field \<mapsto> PyStr c], w2))))"

definition prompt_stage_contained ::
  "'w tools \<Rightarrow> 'w node \<Rightarrow> string \<Rightarrow> part list \<Rightarrow> ustr \<Rightarrow> bool" where
  "prompt_stage_contained t node field prompt what \<longleftrightarrow>
     (\<forall>state w p. fstring prompt state = Inr p \<longrightarrow>
        (\<forall>e w2. llm t p w = (Inl e, w2) \<longrightarrow>
           node state w = (Inr [field \<mapsto> placeholder what e], w2)) \<and>
        (\<forall>c w2. llm t p w = (Inr c, w2) \<longrightarrow>
           node state w = (Inr [field \<mapsto> PyStr c], w2)))"

text \<open>The names of the stages in pipeline order, and the four output fields.\<close>

definition stage_order :: "string list" where
  "stage_order = [''context'', ''industry'', ''strategy'', ''brief'']"

definition output_fields :: "string list" where
  "output_fields = [''context_analysis'', ''industry_analysis'', ''strategy'', ''executive_brief'']"


text \<open>
  A client is deterministic when its answer depends on its argument only, not on the world
  it is called in.
\<close>

definition deterministic :: "('a \<Rightarrow> ('w, 'b) io) \<Rightarrow> bool" where
  "deterministic f \<longleftrightarrow> (\<forall>x w w'. fst (f x w) = fst (f x w'))"

text \<open>
  Stand-ins for the two clients: each answers every call with one canned result and appends
  the call to the world, which is the list of calls made so far.
\<close>

datatype call = Search ustr | Complete ustr

definition canned_tools :: "exn + ustr \<Rightarrow> exn + ustr \<Rightarrow> call list tools" where
  "canned_tools found written =
     \<lparr>search_tool = (\<lambda>q w. (found, w @ [Search q])),
      llm = (\<lambda>p w. (written, w @ [Complete p]))\<rparr>"

text \<open>The value of a field in the final state of a run, \<open>None\<close> when the run did not finish.\<close>

definition result_field :: "(exn + state \<times> trace) option \<times> 'w \<Rightarrow> string \<Rightarrow> pyval option" where
  "result_field r k =
     (case fst r of Some (Inr (final, tr)) \<Rightarrow> final k | _ \<Rightarrow> None)"

text \<open>The texts \<open>hs\<close> occur in \<open>s\<close> one after the other, in the order of the list.\<close>

fun occur_in_order :: "ustr list \<Rightarrow> ustr \<Rightarrow> bool" where
  "occur_in_order [] s \<longleftrightarrow> True"
| "occur_in_order (h # hs) s \<longleftrightarrow> (\<exists>ps ss. s = ps @ h @ ss \<and> occur_in_order hs ss)"

text \<open>The four section headers of the briefing skeleton (lines 219, 224, 227 and 230).\<close>

definition section_headers :: "ustr list" where
  "section_headers =
     [asc ''## '' @ [0x1F3AF] @ asc '' 1. RESUMO DA REUNI'' @ [0xC3] @ asc ''O'',
      asc ''## '' @ [0x1F3E2] @ asc '' 2. CONTEXTO DA EMPRESA'',
      asc ''## '' @ [0x1F4CA] @ asc '' 3. AN'' @ [0xC1] @ asc ''LISE DE MERCADO'',
      asc ''## '' @ [0x1F680] @ asc '' 4. ESTRAT'' @ [0xC9] @ asc ''GIA E AGENDA'']"

text \<open>
  The default of \<^verbatim>\<open>state.get(k, d)\<close> in the strategy prompt, and what that call prints for
  a key that is missing or present.
\<close>

definition not_available :: ustr where
  "not_available = asc ''N'' @ [0xE3] @ asc ''o dispon'' @ [0xED] @ asc ''vel''"

definition shown :: "pyval option \<Rightarrow> ustr" where
  "shown x = (case x of None \<Rightarrow> not_available | Some v \<Rightarrow> fmt v)"

text \<open>What a node does once its prompt is built: one completion call, stored or contained.\<close>

definition complete_into :: "'w tools \<Rightarrow> string \<Rightarrow> ustr \<Rightarrow> ustr \<Rightarrow> ('w, state) io" where
  "complete_into t field what prompt =
     (\<lambda>w. case llm t prompt w of
        (Inl e, w') \<Rightarrow> (Inr [field \<mapsto> placeholder what e], w')
      | (Inr c, w') \<Rightarrow> (Inr [field \<mapsto> PyStr c], w'))"

text \<open>The end-to-end scenario: the state the main block builds for the sample meeting.\<close>

definition acme_state :: "ustr \<Rightarrow> state" where
  "acme_state now =
     initial_state (asc ''Acme'') (asc ''Discuss partnership'') (asc ''John - CEO'') 60 [] now"

section \<open>Properties\<close>

subsection \<open>Input validation\<close>

lemma strip_Nil_iff: "strip s = [] \<longleftrightarrow> (\<forall>c\<in>set s. isspace c)"
proof -
  have "dropWhile isspace (rev (dropWhile isspace s)) = [] \<longleftrightarrow> dropWhile isspace s = []"
  proof
    assume a: "dropWhile isspace (rev (dropWhile isspace s)) = []"
    show "dropWhile isspace s = []"
    proof (rule ccontr)
      assume n: "dropWhile isspace s \<noteq> []"
      then have "\<not> isspace (hd (dropWhile isspace s))" by (rule hd_dropWhile)
      moreover have "hd (dropWhile isspace s) \<in> set (rev (dropWhile isspace s))" using n by simp
      ultimately show False using a by auto
    qed
  next
    assume b: "dropWhile isspace s = []"
    show "dropWhile isspace (rev (dropWhile isspace s)) = []" unfolding b by simp
  qed
  then show ?thesis by (simp add: strip_def)
qed

lemma strip_Nil_blank: "strip s = [] \<longleftrightarrow> blank s"
  by (simp add: strip_Nil_iff blank_def list_all_iff)

text \<open>
  C3. \<open>validate_inputs\<close> returns an error string exactly when one of the three strings is
  blank (empty or whitespace only) or the company name has fewer than two characters, and
  returns \<open>None\<close> otherwise. The four sample calls give the company-required error, the
  objective-required error, the minimum-length error and no error.
\<close>

theorem validate_inputs_error_iff:
  "(validate_inputs company objective attendees \<noteq> None \<longleftrightarrow>
      blank company \<or> blank objective \<or> blank attendees \<or> length company < 2) \<and>
   validate_inputs (asc '' '') (asc ''x'') (asc ''y'') =
     Some (asc ''Nome da empresa '' @ [0xE9] @ asc '' obrigat'' @ [0xF3] @ asc ''rio'') \<and>
   validate_inputs (asc ''Acme'') [] (asc ''y'') =
     Some (asc ''Objetivo da reuni'' @ [0xE3] @ asc ''o '' @ [0xE9] @ asc '' obrigat'' @ [0xF3] @ asc ''rio'') \<and>
   validate_inputs (asc ''A'') (asc ''x'') (asc ''y'') =
     Some (asc ''Nome da empresa deve ter pelo menos 2 caracteres'') \<and>
   validate_inputs (asc ''Acme'') (asc ''Partner up'') (asc ''John - CEO'') = None"
proof (intro conjI)
  show "validate_inputs company objective attendees \<noteq> None \<longleftrightarrow>
      blank company \<or> blank objective \<or> blank attendees \<or> length company < 2"
    by (simp add: validate_inputs_def strip_Nil_blank)
qed (simp_all add: validate_inputs_def strip_def asc_def isspace_def)

theorem validate_inputs_error_iff_witness:
  "blank (asc ''  '') \<and> validate_inputs (asc ''  '') (asc ''x'') (asc ''y'') \<noteq> None"
proof -
  have b: "blank (asc ''  '')" by (simp add: blank_def asc_def isspace_def)
  from validate_inputs_error_iff [of "asc ''  ''" "asc ''x''" "asc ''y''"] b
  show ?thesis by blast
qed

text \<open>
  C10. The emptiness checks look at the stripped strings, the minimum-length check at the raw
  company name. So a company name of raw length at least two whose stripped form is a single
  character passes validation (objective and attendees being acceptable): the name
  \<open>'' A ''\<close> is accepted.
\<close>

theorem validate_inputs_length_of_raw_name:
  assumes "2 \<le> length company"
    and "0 < length (strip company)" and "length (strip company) < 2"
    and "\<not> blank objective" and "\<not> blank attendees"
  shows "validate_inputs company objective attendees = None"
  using assms by (auto simp: validate_inputs_def strip_Nil_blank)

theorem validate_inputs_length_of_raw_name_witness:
  "2 \<le> length (asc '' A '') \<and> length (strip (asc '' A '')) = 1 \<and>
   \<not> blank (asc ''x'') \<and> \<not> blank (asc ''y'') \<and>
   validate_inputs (asc '' A '') (asc ''x'') (asc ''y'') = None"
proof -
  have l: "2 \<le> length (asc '' A '')" by (simp add: asc_def)
  have s: "length (strip (asc '' A '')) = 1" by (simp add: strip_def asc_def isspace_def)
  have x: "\<not> blank (asc ''x'')" and y: "\<not> blank (asc ''y'')"
    by (simp_all add: blank_def asc_def isspace_def)
  from s have s0: "0 < length (strip (asc '' A ''))" and s2: "length (strip (asc '' A '')) < 2"
    by simp_all
  from validate_inputs_length_of_raw_name [OF l s0 s2 x y] l s x y show ?thesis by simp
qed

subsection \<open>The nodes and the runner, unfolded\<close>

lemma context_failure_text:
  "fstring (context_failure e) state = Inr (warning_marker @ context_failed @ str_exn e)"
  by (simp add: context_failure_def warning_marker_def context_failed_def)

lemma industry_failure_text:
  "fstring (industry_failure e) state = Inr (warning_marker @ industry_failed @ str_exn e)"
  by (simp add: industry_failure_def warning_marker_def industry_failed_def)

lemma strategy_failure_text:
  "fstring (strategy_failure e) state = Inr (warning_marker @ strategy_failed @ str_exn e)"
  by (simp add: strategy_failure_def warning_marker_def strategy_failed_def)

lemma brief_failure_text:
  "fstring (brief_failure e) state = Inr (warning_marker @ brief_failed @ str_exn e)"
  by (simp add: brief_failure_def warning_marker_def brief_failed_def)

lemma context_log_message_eq:
  "fstring context_log_message state =
     (case state ''company_name'' of
        None \<Rightarrow> Inl (KeyError ''company_name'')
      | Some v \<Rightarrow> Inr (asc ''Iniciando an'' @ [0xE1] @ asc ''lise de contexto para: '' @ fmt v))"
  by (simp add: context_log_message_def split: option.splits)

lemma context_node_unfold:
  "context_analysis_node t state w =
     (case fstring context_log_message state of
        Inl e \<Rightarrow> (Inl e, w)
      | Inr m \<Rightarrow>
         (case fstring context_query state of
            Inl e \<Rightarrow> (Inr [''context_analysis'' \<mapsto> placeholder context_failed e], w)
          | Inr q \<Rightarrow>
             (case search_tool t q w of
                (Inl e, w1) \<Rightarrow> (Inr [''context_analysis'' \<mapsto> placeholder context_failed e], w1)
              | (Inr r, w1) \<Rightarrow>
                 (case fstring (context_prompt r) state of
                    Inl e \<Rightarrow> (Inr [''context_analysis'' \<mapsto> placeholder context_failed e], w1)
                  | Inr p \<Rightarrow>
                     (case llm t p w1 of
                        (Inl e, w2) \<Rightarrow> (Inr [''context_analysis'' \<mapsto> placeholder context_failed e], w2)
                      | (Inr c, w2) \<Rightarrow> (Inr [''context_analysis'' \<mapsto> PyStr c], w2))))))"
  by (simp add: context_analysis_node_def bindE_def tryE_def liftE_def returnE_def
        context_failure_text placeholder_def split: sum.splits prod.splits)

lemma industry_node_unfold:
  "industry_analysis_node t state w =
     (case fstring industry_query state of
        Inl e \<Rightarrow> (Inr [''industry_analysis'' \<mapsto> placeholder industry_failed e], w)
      | Inr q \<Rightarrow>
         (case search_tool t q w of
            (Inl e, w1) \<Rightarrow> (Inr [''industry_analysis'' \<mapsto> placeholder industry_failed e], w1)
          | (Inr r, w1) \<Rightarrow>
             (case fstring (industry_prompt r) state of
                Inl e \<Rightarrow> (Inr [''industry_analysis'' \<mapsto> placeholder industry_failed e], w1)
              | Inr p \<Rightarrow>
                 (case llm t p w1 of
                    (Inl e, w2) \<Rightarrow> (Inr [''industry_analysis'' \<mapsto> placeholder industry_failed e], w2)
                  | (Inr c, w2) \<Rightarrow> (Inr [''industry_analysis'' \<mapsto> PyStr c], w2)))))"
  by (simp add: industry_analysis_node_def bindE_def tryE_def liftE_def returnE_def
        industry_failure_text placeholder_def split: sum.splits prod.splits)

lemma strategy_node_unfold:
  "strategy_development_node t state w =
     (case fstring strategy_prompt state of
        Inl e \<Rightarrow> (Inr [''strategy'' \<mapsto> placeholder strategy_failed e], w)
      | Inr p \<Rightarrow>
         (case llm t p w of
            (Inl e, w2) \<Rightarrow> (Inr [''strategy'' \<mapsto> placeholder strategy_failed e], w2)
          | (Inr c, w2) \<Rightarrow> (Inr [''strategy'' \<mapsto> PyStr c], w2)))"
  by (simp add: strategy_development_node_def bindE_def tryE_def liftE_def returnE_def
        strategy_failure_text placeholder_def split: sum.splits prod.splits)

lemma brief_node_unfold:
  "executive_brief_node t state w =
     (case fstring brief_prompt state of
        Inl e \<Rightarrow> (Inr [''executive_brief'' \<mapsto> placeholder brief_failed e], w)
      | Inr p \<Rightarrow>
         (case llm t p w of
            (Inl e, w2) \<Rightarrow> (Inr [''executive_brief'' \<mapsto> placeholder brief_failed e], w2)
          | (Inr c, w2) \<Rightarrow> (Inr [''executive_brief'' \<mapsto> PyStr c], w2)))"
  by (simp add: executive_brief_node_def bindE_def tryE_def liftE_def returnE_def
        brief_failure_text placeholder_def split: sum.splits prod.splits)

lemma context_node_returns:
  "state ''company_name'' = Some c \<Longrightarrow>
     \<exists>v w'. context_analysis_node t state w = (Inr [''context_analysis'' \<mapsto> PyStr v], w')"
  by (auto simp: context_node_unfold context_log_message_eq placeholder_def
        split: sum.splits prod.splits)

lemma industry_node_returns:
  "\<exists>v w'. industry_analysis_node t state w = (Inr [''industry_analysis'' \<mapsto> PyStr v], w')"
  by (auto simp: industry_node_unfold placeholder_def split: sum.splits prod.splits)

lemma strategy_node_returns:
  "\<exists>v w'. strategy_development_node t state w = (Inr [''strategy'' \<mapsto> PyStr v], w')"
  by (auto simp: strategy_node_unfold placeholder_def split: sum.splits prod.splits)

lemma brief_node_returns:
  "\<exists>v w'. executive_brief_node t state w = (Inr [''executive_brief'' \<mapsto> PyStr v], w')"
  by (auto simp: brief_node_unfold placeholder_def split: sum.splits prod.splits)

lemma workflow_nodes:
  "nodes (build_workflow t) =
     [(''context'', context_analysis_node t), (''industry'', industry_analysis_node t),
      (''strategy'', strategy_development_node t), (''brief'', executive_brief_node t)]"
  by (simp add: build_workflow_def StateGraph_def add_node_def set_entry_point_def add_edge_def)

lemma workflow_edges:
  "edges (build_workflow t) =
     [(''context'', ''industry''), (''industry'', ''strategy''), (''strategy'', ''brief''),
      (''brief'', END)]"
  by (simp add: build_workflow_def StateGraph_def add_node_def set_entry_point_def add_edge_def)

lemma workflow_entry: "entry_point (build_workflow t) = Some ''context''"
  by (simp add: build_workflow_def StateGraph_def add_node_def set_entry_point_def add_edge_def)

lemma run_workflow:
  assumes "context_analysis_node t s w = (Inr u1, w1)"
    and "industry_analysis_node t (s ++ u1) w1 = (Inr u2, w2)"
    and "strategy_development_node t (s ++ u1 ++ u2) w2 = (Inr u3, w3)"
    and "executive_brief_node t (s ++ u1 ++ u2 ++ u3) w3 = (Inr u4, w4)"
  shows "invoke (Suc (Suc (Suc (Suc (Suc k))))) (build_workflow t) s w =
           (Some (Inr (s ++ u1 ++ u2 ++ u3 ++ u4,
              [(''context'', u1), (''industry'', u2), (''strategy'', u3), (''brief'', u4)])), w4)"
  using assms
  by (simp add: invoke_def workflow_entry workflow_nodes workflow_edges END_def)

lemma run_workflow_context_raises:
  assumes "context_analysis_node t s w = (Inl e, w1)"
  shows "invoke (Suc k) (build_workflow t) s w = (Some (Inl e), w1)"
  using assms
  by (simp add: invoke_def workflow_entry workflow_nodes workflow_edges END_def)

subsection \<open>Failure containment\<close>

lemma context_query_needs_company:
  "fstring context_query state = Inr q \<Longrightarrow> \<exists>v. state ''company_name'' = Some v"
  by (simp add: context_query_def split: option.splits)

lemma context_stage_contained:
  "search_stage_contained t (context_analysis_node t) ''context_analysis''
     context_query context_prompt context_failed"
  unfolding search_stage_contained_def
proof (intro allI impI)
  fix state w q
  assume q: "fstring context_query state = Inr q"
  then obtain v where "state ''company_name'' = Some v"
    using context_query_needs_company by blast
  then have m: "\<exists>m. fstring context_log_message state = Inr m"
    by (simp add: context_log_message_eq)
  show "(\<forall>e w1. search_tool t q w = (Inl e, w1) \<longrightarrow>
           context_analysis_node t state w =
             (Inr [''context_analysis'' \<mapsto> placeholder context_failed e], w1)) \<and>
        (\<forall>r w1 p. search_tool t q w = (Inr r, w1) \<longrightarrow> fstring (context_prompt r) state = Inr p \<longrightarrow>
           (\<forall>e w2. llm t p w1 = (Inl e, w2) \<longrightarrow>
              context_analysis_node t state w =
                (Inr [''context_analysis'' \<mapsto> placeholder context_failed e], w2)) \<and>
           (\<forall>c w2. llm t p w1 = (Inr c, w2) \<longrightarrow>
              context_analysis_node t state w = (Inr [''context_analysis'' \<mapsto> PyStr c], w2)))"
    using q m by (auto simp: context_node_unfold)
qed

lemma industry_stage_contained:
  "search_stage_contained t (industry_analysis_node t) ''industry_analysis''
     industry_query industry_prompt industry_failed"
  unfolding search_stage_contained_def by (auto simp: industry_node_unfold)

lemma strategy_stage_contained:
  "prompt_stage_contained t (strategy_development_node t) ''strategy''
     strategy_prompt strategy_failed"
  unfolding prompt_stage_contained_def by (auto simp: strategy_node_unfold)

lemma brief_stage_contained:
  "prompt_stage_contained t (executive_brief_node t) ''executive_brief''
     brief_prompt brief_failed"
  unfolding prompt_stage_contained_def by (auto simp: brief_node_unfold)

lemma workflow_completes:
  assumes "state ''company_name'' = Some c" and "5 \<le> fuel"
  shows "\<exists>v1 v2 v3 v4 w1 w2 w3 w4.
           context_analysis_node t state w = (Inr [''context_analysis'' \<mapsto> PyStr v1], w1) \<and>
           industry_analysis_node t (state ++ [''context_analysis'' \<mapsto> PyStr v1]) w1 =
             (Inr [''industry_analysis'' \<mapsto> PyStr v2], w2) \<and>
           strategy_development_node t
               (state ++ [''context_analysis'' \<mapsto> PyStr v1] ++ [''industry_analysis'' \<mapsto> PyStr v2]) w2 =
             (Inr [''strategy'' \<mapsto> PyStr v3], w3) \<and>
           executive_brief_node t
               (state ++ [''context_analysis'' \<mapsto> PyStr v1] ++ [''industry_analysis'' \<mapsto> PyStr v2] ++
                 [''strategy'' \<mapsto> PyStr v3]) w3 =
             (Inr [''executive_brief'' \<mapsto> PyStr v4], w4) \<and>
           invoke fuel (build_workflow t) state w =
             (Some (Inr (state ++ [''context_analysis'' \<mapsto> PyStr v1] ++ [''industry_analysis'' \<mapsto> PyStr v2] ++
                      [''strategy'' \<mapsto> PyStr v3] ++ [''executive_brief'' \<mapsto> PyStr v4],
                   [(''context'', [''context_analysis'' \<mapsto> PyStr v1]),
                    (''industry'', [''industry_analysis'' \<mapsto> PyStr v2]),
                    (''strategy'', [''strategy'' \<mapsto> PyStr v3]),
                    (''brief'', [''executive_brief'' \<mapsto> PyStr v4])])), w4)"
proof -
  obtain k where k: "fuel = Suc (Suc (Suc (Suc (Suc k))))"
    using assms(2) by (metis add_Suc le_Suc_ex numeral_eq_Suc pred_numeral_simps(2,3) semiring_norm(26,27))
  obtain v1 w1 where n1:
    "context_analysis_node t state w = (Inr [''context_analysis'' \<mapsto> PyStr v1], w1)"
    using context_node_returns [of state c t w] assms(1) by blast
  obtain v2 w2 where n2:
    "industry_analysis_node t (state ++ [''context_analysis'' \<mapsto> PyStr v1]) w1 =
       (Inr [''industry_analysis'' \<mapsto> PyStr v2], w2)"
    using industry_node_returns [of t "state ++ [''context_analysis'' \<mapsto> PyStr v1]" w1] by blast
  obtain v3 w3 where n3:
    "strategy_development_node t
       (state ++ [''context_analysis'' \<mapsto> PyStr v1] ++ [''industry_analysis'' \<mapsto> PyStr v2]) w2 =
       (Inr [''strategy'' \<mapsto> PyStr v3], w3)"
    using strategy_node_returns [of t "state ++ [''context_analysis'' \<mapsto> PyStr v1] ++ [''industry_analysis'' \<mapsto> PyStr v2]" w2] by blast
  obtain v4 w4 where n4:
    "executive_brief_node t
       (state ++ [''context_analysis'' \<mapsto> PyStr v1] ++ [''industry_analysis'' \<mapsto> PyStr v2] ++
         [''strategy'' \<mapsto> PyStr v3]) w3 =
       (Inr [''executive_brief'' \<mapsto> PyStr v4], w4)"
    using brief_node_returns [of t "state ++ [''context_analysis'' \<mapsto> PyStr v1] ++ [''industry_analysis'' \<mapsto> PyStr v2] ++ [''strategy'' \<mapsto> PyStr v3]" w3] by blast
  from run_workflow [OF n1 n2 n3 n4, of k] n1 n2 n3 n4 k show ?thesis by blast
qed

text \<open>
  C1. In every stage, a search call or a completion call that raises makes the stage store,
  in its own output field, the warning marker followed by the stage's failure wording and the
  text of the exception (for a client failure with message \<open>m\<close>, the message itself); the
  node returns normally, and when its calls succeed the field holds the completion. A run on
  a state that holds the company name raises nothing: it is the context node on the initial
  state, then the industry, strategy and brief nodes, each on the state merged with the
  updates of the stages before it and in the world the stage before it left; each of them
  returns its one field, whatever the earlier stages stored, and the final state is the
  initial state merged with the four updates, written in stage order.
\<close>

theorem stage_failures_contained:
  "search_stage_contained t (context_analysis_node t) ''context_analysis''
     context_query context_prompt context_failed \<and>
   search_stage_contained t (industry_analysis_node t) ''industry_analysis''
     industry_query industry_prompt industry_failed \<and>
   prompt_stage_contained t (strategy_development_node t) ''strategy''
     strategy_prompt strategy_failed \<and>
   prompt_stage_contained t (executive_brief_node t) ''executive_brief''
     brief_prompt brief_failed \<and>
   (\<forall>what m. placeholder what (ClientError m) = PyStr (warning_marker @ what @ m)) \<and>
   (\<forall>state w fuel c. state ''company_name'' = Some c \<longrightarrow> 5 \<le> fuel \<longrightarrow>
      (\<exists>v1 v2 v3 v4 w1 w2 w3 w4.
         context_analysis_node t state w = (Inr [''context_analysis'' \<mapsto> PyStr v1], w1) \<and>
         industry_analysis_node t (state ++ [''context_analysis'' \<mapsto> PyStr v1]) w1 =
           (Inr [''industry_analysis'' \<mapsto> PyStr v2], w2) \<and>
         strategy_development_node t
             (state ++ [''context_analysis'' \<mapsto> PyStr v1] ++ [''industry_analysis'' \<mapsto> PyStr v2]) w2 =
           (Inr [''strategy'' \<mapsto> PyStr v3], w3) \<and>
         executive_brief_node t
             (state ++ [''context_analysis'' \<mapsto> PyStr v1] ++ [''industry_analysis'' \<mapsto> PyStr v2] ++
               [''strategy'' \<mapsto> PyStr v3]) w3 =
           (Inr [''executive_brief'' \<mapsto> PyStr v4], w4) \<and>
         invoke fuel (build_workflow t) state w =
           (Some (Inr (state ++ [''context_analysis'' \<mapsto> PyStr v1] ++
                         [''industry_analysis'' \<mapsto> PyStr v2] ++
                         [''strategy'' \<mapsto> PyStr v3] ++ [''executive_brief'' \<mapsto> PyStr v4],
                       [(''context'', [''context_analysis'' \<mapsto> PyStr v1]),
                        (''industry'', [''industry_analysis'' \<mapsto> PyStr v2]),
                        (''strategy'', [''strategy'' \<mapsto> PyStr v3]),
                        (''brief'', [''executive_brief'' \<mapsto> PyStr v4])])), w4)))"
proof (intro conjI allI impI)
  fix what m
  show "placeholder what (ClientError m) = PyStr (warning_marker @ what @ m)"
    by (simp add: placeholder_def)
next
  fix state :: state and w :: 'a and fuel :: nat and c
  assume "state ''company_name'' = Some c" and "5 \<le> fuel"
  then show "\<exists>v1 v2 v3 v4 w1 w2 w3 w4.
         context_analysis_node t state w = (Inr [''context_analysis'' \<mapsto> PyStr v1], w1) \<and>
         industry_analysis_node t (state ++ [''context_analysis'' \<mapsto> PyStr v1]) w1 =
           (Inr [''industry_analysis'' \<mapsto> PyStr v2], w2) \<and>
         strategy_development_node t
             (state ++ [''context_analysis'' \<mapsto> PyStr v1] ++ [''industry_analysis'' \<mapsto> PyStr v2]) w2 =
           (Inr [''strategy'' \<mapsto> PyStr v3], w3) \<and>
         executive_brief_node t
             (state ++ [''context_analysis'' \<mapsto> PyStr v1] ++ [''industry_analysis'' \<mapsto> PyStr v2] ++
               [''strategy'' \<mapsto> PyStr v3]) w3 =
           (Inr [''executive_brief'' \<mapsto> PyStr v4], w4) \<and>
         invoke fuel (build_workflow t) state w =
           (Some (Inr (state ++ [''context_analysis'' \<mapsto> PyStr v1] ++
                         [''industry_analysis'' \<mapsto> PyStr v2] ++
                         [''strategy'' \<mapsto> PyStr v3] ++ [''executive_brief'' \<mapsto> PyStr v4],
                       [(''context'', [''context_analysis'' \<mapsto> PyStr v1]),
                        (''industry'', [''industry_analysis'' \<mapsto> PyStr v2]),
                        (''strategy'', [''strategy'' \<mapsto> PyStr v3]),
                        (''brief'', [''executive_brief'' \<mapsto> PyStr v4])])), w4)"
    by (rule workflow_completes)
qed (rule context_stage_contained industry_stage_contained strategy_stage_contained
      brief_stage_contained)+

lemma acme_company: "acme_state now ''company_name'' = Some (PyStr (asc ''Acme''))"
  by (simp add: acme_state_def initial_state_def)

lemma acme_needed:
  "acme_state now ''meeting_objective'' = Some (PyStr (asc ''Discuss partnership''))"
  "acme_state now ''attendees'' = Some (PyStr (asc ''John - CEO''))"
  "acme_state now ''duration'' = Some (PyInt 60)"
  by (simp_all add: acme_state_def initial_state_def)

theorem stage_failures_contained_witness:
  "\<exists>final tr w'.
     invoke 5 (build_workflow (canned_tools (Inl (ClientError (asc ''quota exceeded''))) (Inr (asc ''ok''))))
       (acme_state []) [] = (Some (Inr (final, tr)), w') \<and>
     map fst tr = stage_order \<and>
     final ''context_analysis'' =
       Some (PyStr (warning_marker @ context_failed @ asc ''quota exceeded'')) \<and>
     final ''industry_analysis'' =
       Some (PyStr (warning_marker @ industry_failed @ asc ''quota exceeded'')) \<and>
     final ''strategy'' = Some (PyStr (asc ''ok'')) \<and>
     final ''executive_brief'' = Some (PyStr (asc ''ok''))"
proof -
  let ?e = "ClientError (asc ''quota exceeded'')"
  let ?T = "canned_tools (Inl ?e) (Inr (asc ''ok''))"
  let ?u1 = "[''context_analysis'' \<mapsto> placeholder context_failed ?e]"
  let ?u2 = "[''industry_analysis'' \<mapsto> placeholder industry_failed ?e]"
  let ?u3 = "[''strategy'' \<mapsto> PyStr (asc ''ok'')]"
  let ?u4 = "[''executive_brief'' \<mapsto> PyStr (asc ''ok'')]"
  note T = stage_failures_contained [of ?T]
  note c1 = T [THEN conjunct1]
  note c2 = T [THEN conjunct2, THEN conjunct1]
  note c3 = T [THEN conjunct2, THEN conjunct2, THEN conjunct1]
  note c4 = T [THEN conjunct2, THEN conjunct2, THEN conjunct2, THEN conjunct1]
  note c5 = T [THEN conjunct2, THEN conjunct2, THEN conjunct2, THEN conjunct2, THEN conjunct1]
  note c6 = T [THEN conjunct2, THEN conjunct2, THEN conjunct2, THEN conjunct2, THEN conjunct2]
  have ph: "placeholder what ?e = PyStr (warning_marker @ what @ asc ''quota exceeded'')" for what
    using c5 by (rule allE [where x = what]) (rule spec)
  from c6 [rule_format, where state = "acme_state []" and fuel = 5 and w = "[]",
      OF acme_company order_refl]
  show ?thesis
  proof (elim exE conjE)
    fix v1 v2 v3 v4 w1 w2 w3 w4
    assume n1: "context_analysis_node ?T (acme_state []) [] = (Inr [''context_analysis'' \<mapsto> PyStr v1], w1)"
      and n2: "industry_analysis_node ?T (acme_state [] ++ [''context_analysis'' \<mapsto> PyStr v1]) w1 =
           (Inr [''industry_analysis'' \<mapsto> PyStr v2], w2)"
      and n3: "strategy_development_node ?T
             (acme_state [] ++ [''context_analysis'' \<mapsto> PyStr v1] ++ [''industry_analysis'' \<mapsto> PyStr v2]) w2 =
           (Inr [''strategy'' \<mapsto> PyStr v3], w3)"
      and n4: "executive_brief_node ?T
             (acme_state [] ++ [''context_analysis'' \<mapsto> PyStr v1] ++ [''industry_analysis'' \<mapsto> PyStr v2] ++
               [''strategy'' \<mapsto> PyStr v3]) w3 =
           (Inr [''executive_brief'' \<mapsto> PyStr v4], w4)"
      and run: "invoke 5 (build_workflow ?T) (acme_state []) [] =
           (Some (Inr (acme_state [] ++ [''context_analysis'' \<mapsto> PyStr v1] ++
                         [''industry_analysis'' \<mapsto> PyStr v2] ++
                         [''strategy'' \<mapsto> PyStr v3] ++ [''executive_brief'' \<mapsto> PyStr v4],
                       [(''context'', [''context_analysis'' \<mapsto> PyStr v1]),
                        (''industry'', [''industry_analysis'' \<mapsto> PyStr v2]),
                        (''strategy'', [''strategy'' \<mapsto> PyStr v3]),
                        (''brief'', [''executive_brief'' \<mapsto> PyStr v4])])), w4)"
    \<comment> \<open>stage 1: the search raises\<close>
    obtain q1 where q1: "fstring context_query (acme_state []) = Inr q1"
      by (simp add: context_query_def acme_company)
    have s1: "search_tool ?T q1 [] = (Inl ?e, [Search q1])"
      by (simp add: canned_tools_def)
    from c1 q1 s1 have a1: "context_analysis_node ?T (acme_state []) [] = (Inr ?u1, [Search q1])"
      unfolding search_stage_contained_def by blast
    from n1 a1 have u1: "[''context_analysis'' \<mapsto> PyStr v1] = ?u1" and w1: "w1 = [Search q1]"
      by simp_all
    \<comment> \<open>stage 2: the search raises again\<close>
    let ?s1 = "acme_state [] ++ ?u1"
    obtain q2 where q2: "fstring industry_query ?s1 = Inr q2"
      by (simp add: industry_query_def acme_company)
    have s2: "search_tool ?T q2 [Search q1] = (Inl ?e, [Search q1, Search q2])"
      by (simp add: canned_tools_def)
    from c2 q2 s2 have a2: "industry_analysis_node ?T ?s1 [Search q1] = (Inr ?u2, [Search q1, Search q2])"
      unfolding search_stage_contained_def by blast
    from n2 [unfolded u1 w1] a2
    have u2: "[''industry_analysis'' \<mapsto> PyStr v2] = ?u2" and w2: "w2 = [Search q1, Search q2]"
      by simp_all
    \<comment> \<open>stage 3: its completion succeeds\<close>
    let ?s2 = "acme_state [] ++ ?u1 ++ ?u2"
    obtain p3 where p3: "fstring strategy_prompt ?s2 = Inr p3"
      by (simp add: strategy_prompt_def acme_needed)
    have l3: "llm ?T p3 [Search q1, Search q2] = (Inr (asc ''ok''), [Search q1, Search q2, Complete p3])"
      by (simp add: canned_tools_def)
    from c3 p3 l3 have a3: "strategy_development_node ?T ?s2 [Search q1, Search q2] =
        (Inr ?u3, [Search q1, Search q2, Complete p3])"
      unfolding prompt_stage_contained_def by blast
    from n3 [unfolded u1 u2 w2] a3
    have u3: "[''strategy'' \<mapsto> PyStr v3] = ?u3" and w3: "w3 = [Search q1, Search q2, Complete p3]"
      by simp_all
    \<comment> \<open>stage 4: its completion succeeds\<close>
    let ?s3 = "acme_state [] ++ ?u1 ++ ?u2 ++ ?u3"
    obtain p4 where p4: "fstring brief_prompt ?s3 = Inr p4"
      by (simp add: brief_prompt_def acme_company acme_needed)
    have l4: "llm ?T p4 [Search q1, Search q2, Complete p3] =
        (Inr (asc ''ok''), [Search q1, Search q2, Complete p3, Complete p4])"
      by (simp add: canned_tools_def)
    from c4 p4 l4 have a4: "executive_brief_node ?T ?s3 [Search q1, Search q2, Complete p3] =
        (Inr ?u4, [Search q1, Search q2, Complete p3, Complete p4])"
      unfolding prompt_stage_contained_def by blast
    from n4 [unfolded u1 u2 u3 w3] a4
    have u4: "[''executive_brief'' \<mapsto> PyStr v4] = ?u4"
      by simp
    let ?final = "acme_state [] ++ ?u1 ++ ?u2 ++ ?u3 ++ ?u4"
    let ?tr = "[(''context'', ?u1), (''industry'', ?u2), (''strategy'', ?u3), (''brief'', ?u4)]"
    from run [unfolded u1 u2 u3 u4]
    have r: "invoke 5 (build_workflow ?T) (acme_state []) [] = (Some (Inr (?final, ?tr)), w4)" .
    have o: "map fst ?tr = stage_order"
      by (simp add: stage_order_def)
    have f1: "?final ''context_analysis'' =
        Some (PyStr (warning_marker @ context_failed @ asc ''quota exceeded''))"
      by (simp add: ph)
    have f2: "?final ''industry_analysis'' =
        Some (PyStr (warning_marker @ industry_failed @ asc ''quota exceeded''))"
      by (simp add: ph)
    have f3: "?final ''strategy'' = Some (PyStr (asc ''ok''))"
      by simp
    have f4: "?final ''executive_brief'' = Some (PyStr (asc ''ok''))"
      by simp
    show ?thesis
      by (intro exI conjI) (rule r o f1 f2 f3 f4)+
  qed
qed

subsection \<open>Runs with canned clients\<close>

lemma canned_workflow:
  assumes c: "state ''company_name'' = Some c" and ob: "state ''meeting_objective'' = Some ob"
    and a: "state ''attendees'' = Some a" and d: "state ''duration'' = Some d"
    and fuel: "5 \<le> fuel"
  shows "\<exists>q1 p1 q2 p2 p3 p4.
     fstring context_query state = Inr q1 \<and>
     fstring (context_prompt cs) state = Inr p1 \<and>
     fstring industry_query (state(''context_analysis'' \<mapsto> PyStr cl)) = Inr q2 \<and>
     fstring (industry_prompt cs) (state(''context_analysis'' \<mapsto> PyStr cl)) = Inr p2 \<and>
     fstring strategy_prompt
       (state(''context_analysis'' \<mapsto> PyStr cl, ''industry_analysis'' \<mapsto> PyStr cl)) = Inr p3 \<and>
     fstring brief_prompt
       (state(''context_analysis'' \<mapsto> PyStr cl, ''industry_analysis'' \<mapsto> PyStr cl,
              ''strategy'' \<mapsto> PyStr cl)) = Inr p4 \<and>
     invoke fuel (build_workflow (canned_tools (Inr cs) (Inr cl))) state w =
       (Some (Inr (state(''context_analysis'' \<mapsto> PyStr cl, ''industry_analysis'' \<mapsto> PyStr cl,
                         ''strategy'' \<mapsto> PyStr cl, ''executive_brief'' \<mapsto> PyStr cl),
                   [(''context'', [''context_analysis'' \<mapsto> PyStr cl]),
                    (''industry'', [''industry_analysis'' \<mapsto> PyStr cl]),
                    (''strategy'', [''strategy'' \<mapsto> PyStr cl]),
                    (''brief'', [''executive_brief'' \<mapsto> PyStr cl])])),
        w @ [Search q1, Complete p1, Search q2, Complete p2, Complete p3, Complete p4])"
proof -
  let ?T = "canned_tools (Inr cs) (Inr cl)"
  let ?s1 = "state(''context_analysis'' \<mapsto> PyStr cl)"
  let ?s2 = "state(''context_analysis'' \<mapsto> PyStr cl, ''industry_analysis'' \<mapsto> PyStr cl)"
  let ?s3 = "state(''context_analysis'' \<mapsto> PyStr cl, ''industry_analysis'' \<mapsto> PyStr cl,
              ''strategy'' \<mapsto> PyStr cl)"
  obtain k where k: "fuel = Suc (Suc (Suc (Suc (Suc k))))"
    using fuel by (metis add_Suc le_Suc_ex numeral_eq_Suc pred_numeral_simps(2,3) semiring_norm(26,27))
  obtain q1 where q1: "fstring context_query state = Inr q1"
    by (simp add: context_query_def c)
  obtain p1 where p1: "fstring (context_prompt cs) state = Inr p1"
    by (simp add: context_prompt_def c ob a d)
  obtain q2 where q2: "fstring industry_query ?s1 = Inr q2"
    by (simp add: industry_query_def c)
  obtain p2 where p2: "fstring (industry_prompt cs) ?s1 = Inr p2"
    by (simp add: industry_prompt_def c ob)
  obtain p3 where p3: "fstring strategy_prompt ?s2 = Inr p3"
    by (simp add: strategy_prompt_def ob a d)
  obtain p4 where p4: "fstring brief_prompt ?s3 = Inr p4"
    by (simp add: brief_prompt_def c ob a d)
  have n1: "context_analysis_node ?T state w =
      (Inr [''context_analysis'' \<mapsto> PyStr cl], w @ [Search q1, Complete p1])"
    by (simp add: context_node_unfold context_log_message_eq c q1 p1 canned_tools_def)
  have n2: "industry_analysis_node ?T (state ++ [''context_analysis'' \<mapsto> PyStr cl])
        (w @ [Search q1, Complete p1]) =
      (Inr [''industry_analysis'' \<mapsto> PyStr cl],
       w @ [Search q1, Complete p1, Search q2, Complete p2])"
    by (simp add: industry_node_unfold q2 p2 canned_tools_def)
  have n3: "strategy_development_node ?T
        (state ++ [''context_analysis'' \<mapsto> PyStr cl] ++ [''industry_analysis'' \<mapsto> PyStr cl])
        (w @ [Search q1, Complete p1, Search q2, Complete p2]) =
      (Inr [''strategy'' \<mapsto> PyStr cl],
       w @ [Search q1, Complete p1, Search q2, Complete p2, Complete p3])"
    by (simp add: strategy_node_unfold p3 canned_tools_def)
  have n4: "executive_brief_node ?T
        (state ++ [''context_analysis'' \<mapsto> PyStr cl] ++ [''industry_analysis'' \<mapsto> PyStr cl] ++
           [''strategy'' \<mapsto> PyStr cl])
        (w @ [Search q1, Complete p1, Search q2, Complete p2, Complete p3]) =
      (Inr [''executive_brief'' \<mapsto> PyStr cl],
       w @ [Search q1, Complete p1, Search q2, Complete p2, Complete p3, Complete p4])"
    by (simp add: brief_node_unfold p4 canned_tools_def)
  from run_workflow [OF n1 n2 n3 n4, of k] q1 p1 q2 p2 p3 p4 k show ?thesis by simp
qed

lemma acme_inputs:
  "acme_state now ''company_name'' = Some (PyStr (asc ''Acme''))"
  "acme_state now ''meeting_objective'' = Some (PyStr (asc ''Discuss partnership''))"
  "acme_state now ''attendees'' = Some (PyStr (asc ''John - CEO''))"
  "acme_state now ''duration'' = Some (PyInt 60)"
  by (simp_all add: acme_state_def initial_state_def)

lemma canned_acme_brief:
  "result_field (invoke 5 (build_workflow (canned_tools (Inr cs) (Inr cl))) (acme_state now) w)
     ''executive_brief'' = Some (PyStr cl)"
proof -
  from canned_workflow [where state = "acme_state now" and fuel = 5 and cs = cs and cl = cl and w = w,
      OF acme_inputs order_refl]
  obtain w' where
    "invoke 5 (build_workflow (canned_tools (Inr cs) (Inr cl))) (acme_state now) w =
       (Some (Inr ((acme_state now)(''context_analysis'' \<mapsto> PyStr cl, ''industry_analysis'' \<mapsto> PyStr cl,
                         ''strategy'' \<mapsto> PyStr cl, ''executive_brief'' \<mapsto> PyStr cl),
                   [(''context'', [''context_analysis'' \<mapsto> PyStr cl]),
                    (''industry'', [''industry_analysis'' \<mapsto> PyStr cl]),
                    (''strategy'', [''strategy'' \<mapsto> PyStr cl]),
                    (''brief'', [''executive_brief'' \<mapsto> PyStr cl])])), w')"
    by blast
  then show ?thesis by (simp add: result_field_def)
qed

subsection \<open>Order of the stages and the output fields\<close>









subsection \<open>Frame: what a stage writes\<close>

lemma context_node_dom:
  "context_analysis_node t state w = (Inr u, w') \<Longrightarrow> dom u = {''context_analysis''}"
  by (auto simp: context_node_unfold split: sum.splits prod.splits if_splits)

lemma industry_node_dom:
  "industry_analysis_node t state w = (Inr u, w') \<Longrightarrow> dom u = {''industry_analysis''}"
  by (auto simp: industry_node_unfold split: sum.splits prod.splits if_splits)

lemma strategy_node_dom:
  "strategy_development_node t state w = (Inr u, w') \<Longrightarrow> dom u = {''strategy''}"
  by (auto simp: strategy_node_unfold split: sum.splits prod.splits if_splits)

lemma brief_node_dom:
  "executive_brief_node t state w = (Inr u, w') \<Longrightarrow> dom u = {''executive_brief''}"
  by (auto simp: brief_node_unfold split: sum.splits prod.splits if_splits)

lemma run_workflow_short:
  assumes "context_analysis_node t s w = (Inr u1, w1)"
    and "industry_analysis_node t (s ++ u1) w1 = (Inr u2, w2)"
    and "strategy_development_node t (s ++ u1 ++ u2) w2 = (Inr u3, w3)"
    and "executive_brief_node t (s ++ u1 ++ u2 ++ u3) w3 = (Inr u4, w4)"
    and "fuel < 5"
  shows "fst (invoke fuel (build_workflow t) s w) = None"
proof -
  from \<open>fuel < 5\<close> have "fuel = 0 \<or> fuel = Suc 0 \<or> fuel = Suc (Suc 0) \<or>
      fuel = Suc (Suc (Suc 0)) \<or> fuel = Suc (Suc (Suc (Suc 0)))"
    by arith
  then show ?thesis
    using assms(1-4)
    by (auto simp: invoke_def workflow_entry workflow_nodes workflow_edges END_def)
qed

lemma run_workflow_raise:
  assumes "context_analysis_node t s w = (Inl e, w1)"
  shows "fst (invoke fuel (build_workflow t) s w) \<noteq> Some (Inr r)"
  using assms
  by (cases fuel) (auto simp: invoke_def workflow_entry workflow_nodes workflow_edges END_def)

lemma finished_run:
  assumes "invoke fuel (build_workflow t) state w = (Some (Inr (final, tr)), w')"
  shows "\<exists>v1 v2 v3 v4.
           final = state ++ [''context_analysis'' \<mapsto> PyStr v1] ++ [''industry_analysis'' \<mapsto> PyStr v2] ++
                      [''strategy'' \<mapsto> PyStr v3] ++ [''executive_brief'' \<mapsto> PyStr v4] \<and>
           tr = [(''context'', [''context_analysis'' \<mapsto> PyStr v1]),
                 (''industry'', [''industry_analysis'' \<mapsto> PyStr v2]),
                 (''strategy'', [''strategy'' \<mapsto> PyStr v3]),
                 (''brief'', [''executive_brief'' \<mapsto> PyStr v4])]"
proof (cases "state ''company_name''")
  case None
  then have "context_analysis_node t state w = (Inl (KeyError ''company_name''), w)"
    by (simp add: context_node_unfold context_log_message_eq)
  from run_workflow_raise [OF this, of fuel "(final, tr)"] assms show ?thesis by simp
next
  case (Some c)
  show ?thesis
  proof (cases "5 \<le> fuel")
    case True
    from workflow_completes [of state c fuel t w] Some True assms show ?thesis by auto
  next
    case False
    then have lt: "fuel < 5" by simp
    obtain v1 w1 where n1:
      "context_analysis_node t state w = (Inr [''context_analysis'' \<mapsto> PyStr v1], w1)"
      using context_node_returns [of state c t w] Some by blast
    obtain v2 w2 where n2:
      "industry_analysis_node t (state ++ [''context_analysis'' \<mapsto> PyStr v1]) w1 =
         (Inr [''industry_analysis'' \<mapsto> PyStr v2], w2)"
      using industry_node_returns [of t "state ++ [''context_analysis'' \<mapsto> PyStr v1]" w1] by blast
    obtain v3 w3 where n3:
      "strategy_development_node t
         (state ++ [''context_analysis'' \<mapsto> PyStr v1] ++ [''industry_analysis'' \<mapsto> PyStr v2]) w2 =
         (Inr [''strategy'' \<mapsto> PyStr v3], w3)"
      using strategy_node_returns [of t "state ++ [''context_analysis'' \<mapsto> PyStr v1] ++ [''industry_analysis'' \<mapsto> PyStr v2]" w2] by blast
    obtain v4 w4 where n4:
      "executive_brief_node t
         (state ++ [''context_analysis'' \<mapsto> PyStr v1] ++ [''industry_analysis'' \<mapsto> PyStr v2] ++
           [''strategy'' \<mapsto> PyStr v3]) w3 =
         (Inr [''executive_brief'' \<mapsto> PyStr v4], w4)"
      using brief_node_returns [of t "state ++ [''context_analysis'' \<mapsto> PyStr v1] ++ [''industry_analysis'' \<mapsto> PyStr v2] ++ [''strategy'' \<mapsto> PyStr v3]" w3] by blast
    from run_workflow_short [OF n1 n2 n3 n4 lt] assms show ?thesis by simp
  qed
qed

text \<open>
  C7. Whenever a node returns, its update holds exactly its own output key. In a finished run
  the trace shows the four writes, one per stage, each to that stage's own field, in stage
  order; every key other than the four output fields (the input fields, \<open>focus_areas\<close> and
  \<open>timestamp\<close> among them) has in the final state the value it had in the initial state.
\<close>

theorem stages_write_only_their_field:
  "(\<forall>u w'. context_analysis_node t state w = (Inr u, w') \<longrightarrow> dom u = {''context_analysis''}) \<and>
   (\<forall>u w'. industry_analysis_node t state w = (Inr u, w') \<longrightarrow> dom u = {''industry_analysis''}) \<and>
   (\<forall>u w'. strategy_development_node t state w = (Inr u, w') \<longrightarrow> dom u = {''strategy''}) \<and>
   (\<forall>u w'. executive_brief_node t state w = (Inr u, w') \<longrightarrow> dom u = {''executive_brief''}) \<and>
   (\<forall>final tr w'. invoke fuel (build_workflow t) state w = (Some (Inr (final, tr)), w') \<longrightarrow>
      map (\<lambda>(n, u). (n, dom u)) tr =
        [(''context'', {''context_analysis''}), (''industry'', {''industry_analysis''}),
         (''strategy'', {''strategy''}), (''brief'', {''executive_brief''})] \<and>
      (\<forall>k. k \<notin> set output_fields \<longrightarrow> final k = state k))"
proof (intro conjI allI impI)
  fix final tr w'
  assume r: "invoke fuel (build_workflow t) state w = (Some (Inr (final, tr)), w')"
  from finished_run [OF r] obtain v1 v2 v3 v4 where
    f: "final = state ++ [''context_analysis'' \<mapsto> PyStr v1] ++ [''industry_analysis'' \<mapsto> PyStr v2] ++
                      [''strategy'' \<mapsto> PyStr v3] ++ [''executive_brief'' \<mapsto> PyStr v4]" and
    t: "tr = [(''context'', [''context_analysis'' \<mapsto> PyStr v1]),
                 (''industry'', [''industry_analysis'' \<mapsto> PyStr v2]),
                 (''strategy'', [''strategy'' \<mapsto> PyStr v3]),
                 (''brief'', [''executive_brief'' \<mapsto> PyStr v4])]"
    by blast
  show "map (\<lambda>(n, u). (n, dom u)) tr =
        [(''context'', {''context_analysis''}), (''industry'', {''industry_analysis''}),
         (''strategy'', {''strategy''}), (''brief'', {''executive_brief''})]"
    by (simp add: t)
  fix k
  assume "k \<notin> set output_fields"
  then show "final k = state k"
    by (simp add: f output_fields_def)
qed (rule context_node_dom industry_node_dom strategy_node_dom brief_node_dom, assumption)+

theorem stages_write_only_their_field_witness:
  "\<exists>final tr w'.
     invoke 5 (build_workflow (canned_tools (Inr (asc ''found'')) (Inr (asc ''ok'')))) (acme_state []) [] =
       (Some (Inr (final, tr)), w') \<and>
     map (\<lambda>(n, u). (n, dom u)) tr =
        [(''context'', {''context_analysis''}), (''industry'', {''industry_analysis''}),
         (''strategy'', {''strategy''}), (''brief'', {''executive_brief''})] \<and>
     ''company_name'' \<notin> set output_fields \<and>
     final ''company_name'' = Some (PyStr (asc ''Acme''))"
proof -
  let ?T = "canned_tools (Inr (asc ''found'')) (Inr (asc ''ok''))"
  from canned_workflow [where state = "acme_state []" and fuel = 5 and cs = "asc ''found''"
      and cl = "asc ''ok''" and w = "[]", OF acme_inputs order_refl]
  obtain final tr w' where
    r: "invoke 5 (build_workflow ?T) (acme_state []) [] = (Some (Inr (final, tr)), w')"
    by blast
  have m: "''company_name'' \<notin> set output_fields"
    by (simp add: output_fields_def)
  from stages_write_only_their_field [of ?T "acme_state []" "[]" 5] r m
  have "map (\<lambda>(n, u). (n, dom u)) tr =
        [(''context'', {''context_analysis''}), (''industry'', {''industry_analysis''}),
         (''strategy'', {''strategy''}), (''brief'', {''executive_brief''})] \<and>
     final ''company_name'' = acme_state [] ''company_name''"
    by blast
  with r m acme_inputs(1) [of "[]"] show ?thesis by auto
qed

subsection \<open>Determinism and independence\<close>

lemma deterministic_split:
  assumes "deterministic f"
  shows "\<exists>g h. \<forall>x w. f x w = (g x, h x w)"
proof -
  have "\<forall>x w. f x w = (fst (f x undefined), snd (f x w))"
    using assms by (metis deterministic_def prod.collapse)
  then show ?thesis
    by (intro exI [of _ "\<lambda>x. fst (f x undefined)"] exI [of _ "\<lambda>x w. snd (f x w)"])
qed

lemma nodes_deterministic:
  assumes "deterministic (search_tool t)" and "deterministic (llm t)"
  shows "fst (context_analysis_node t state w) = fst (context_analysis_node t state w')"
    and "fst (industry_analysis_node t state w) = fst (industry_analysis_node t state w')"
    and "fst (strategy_development_node t state w) = fst (strategy_development_node t state w')"
    and "fst (executive_brief_node t state w) = fst (executive_brief_node t state w')"
proof -
  obtain gs hs where s: "\<And>q w. search_tool t q w = (gs q, hs q w)"
    using deterministic_split [OF assms(1)] by blast
  obtain gl hl where l: "\<And>p w. llm t p w = (gl p, hl p w)"
    using deterministic_split [OF assms(2)] by blast
  show "fst (context_analysis_node t state w) = fst (context_analysis_node t state w')"
    by (simp add: context_node_unfold s l split: sum.splits)
  show "fst (industry_analysis_node t state w) = fst (industry_analysis_node t state w')"
    by (simp add: industry_node_unfold s l split: sum.splits)
  show "fst (strategy_development_node t state w) = fst (strategy_development_node t state w')"
    by (simp add: strategy_node_unfold s l split: sum.splits)
  show "fst (executive_brief_node t state w) = fst (executive_brief_node t state w')"
    by (simp add: brief_node_unfold s l split: sum.splits)
qed

lemma run_graph_deterministic:
  assumes "\<And>n f s w w'. map_of (nodes g) n = Some f \<Longrightarrow> fst (f s w) = fst (f s w')"
  shows "fst (run_graph fuel g n state tr w) = fst (run_graph fuel g n state tr w')"
proof (induction fuel arbitrary: n state tr w w')
  case 0
  show ?case by simp
next
  case (Suc fuel)
  show ?case
  proof (cases "n = END")
    case True
    then show ?thesis by simp
  next
    case notend: False
    show ?thesis
    proof (cases "map_of (nodes g) n")
      case None
      with notend show ?thesis by simp
    next
      case (Some f)
      obtain a w1 where a: "f state w = (a, w1)" by (cases "f state w")
      obtain a' w1' where a': "f state w' = (a', w1')" by (cases "f state w'")
      from assms [OF Some, of state w w'] a a' have eq: "a' = a" by simp
      show ?thesis
      proof (cases a)
        case (Inl e)
        with notend Some a a' eq show ?thesis by simp
      next
        case (Inr update)
        show ?thesis
        proof (cases "map_of (edges g) n")
          case None
          with notend Some a a' eq Inr show ?thesis by simp
        next
          case next_node: (Some n')
          from Suc.IH [of n' "state ++ update" "tr @ [(n, update)]" w1 w1']
          show ?thesis using notend Some a a' eq Inr next_node by simp
        qed
      qed
    qed
  qed
qed

text \<open>
  C8. With deterministic stand-ins for the search client and the completion client (the answer
  of each depends on its argument only), two runs on the same input state end in the same
  outcome, whatever the world each run starts in: the same final state, so the same value in
  every field, the four output fields included.
\<close>

theorem deterministic_clients_equal_runs:
  assumes "deterministic (search_tool t)" and "deterministic (llm t)"
  shows "fst (invoke fuel (build_workflow t) state w) = fst (invoke fuel (build_workflow t) state w') \<and>
         (\<forall>k. result_field (invoke fuel (build_workflow t) state w) k =
               result_field (invoke fuel (build_workflow t) state w') k)"
proof -
  have n: "fst (f s v) = fst (f s v')" if "map_of (nodes (build_workflow t)) n = Some f"
    for n f s and v v' :: 'a
    using that nodes_deterministic [OF assms]
    by (auto simp: workflow_nodes split: if_splits)
  have "fst (run_graph fuel (build_workflow t) ''context'' state [] w) =
        fst (run_graph fuel (build_workflow t) ''context'' state [] w')"
    by (rule run_graph_deterministic) (rule n)
  then have "fst (invoke fuel (build_workflow t) state w) = fst (invoke fuel (build_workflow t) state w')"
    by (simp add: invoke_def workflow_entry)
  then show ?thesis by (simp add: result_field_def)
qed

theorem deterministic_clients_equal_runs_witness:
  "deterministic (search_tool (canned_tools (Inr (asc ''found'')) (Inr (asc ''ok'')))) \<and>
   deterministic (llm (canned_tools (Inr (asc ''found'')) (Inr (asc ''ok'')))) \<and>
   fst (invoke 5 (build_workflow (canned_tools (Inr (asc ''found'')) (Inr (asc ''ok'')))) (acme_state []) []) =
   fst (invoke 5 (build_workflow (canned_tools (Inr (asc ''found'')) (Inr (asc ''ok''))))
          (acme_state []) [Search [], Complete []])"
proof -
  let ?T = "canned_tools (Inr (asc ''found'')) (Inr (asc ''ok''))"
  have s: "deterministic (search_tool ?T)" and l: "deterministic (llm ?T)"
    by (simp_all add: deterministic_def canned_tools_def)
  from deterministic_clients_equal_runs [OF s l, of 5 "acme_state []" "[]" "[Search [], Complete []]"] s l
  show ?thesis by blast
qed

lemma fstring_other_key:
  "\<forall>p\<in>set ps. p \<noteq> Item k \<and> (\<forall>d. p \<noteq> GetD k d) \<Longrightarrow>
     fstring ps (state(k := v)) = fstring ps state"
proof (induction ps)
  case Nil
  show ?case by simp
next
  case (Cons p ps)
  then show ?case by (cases p) (auto split: option.splits)
qed

text \<open>
  C9. The industry stage does not read \<open>context_analysis\<close>: changing, adding or removing
  that key leaves the search query, the prompt built for any search result, and the whole
  outcome of the node (its calls and the value it stores) as they were.
\<close>

theorem industry_stage_ignores_context_analysis:
  "fstring industry_query (state(''context_analysis'' := v)) = fstring industry_query state \<and>
   fstring (industry_prompt r) (state(''context_analysis'' := v)) = fstring (industry_prompt r) state \<and>
   industry_analysis_node t (state(''context_analysis'' := v)) w = industry_analysis_node t state w"
proof -
  have q: "fstring industry_query (state(''context_analysis'' := v)) = fstring industry_query state"
    by (rule fstring_other_key) (simp add: industry_query_def)
  have p: "fstring (industry_prompt x) (state(''context_analysis'' := v)) =
           fstring (industry_prompt x) state" for x
    by (rule fstring_other_key) (simp add: industry_prompt_def)
  have "industry_analysis_node t (state(''context_analysis'' := v)) w =
        industry_analysis_node t state w"
    unfolding industry_node_unfold q p by (rule refl)
  with q p show ?thesis by simp
qed

theorem industry_stage_ignores_context_analysis_witness:
  "industry_analysis_node (canned_tools (Inr (asc ''found'')) (Inr (asc ''ok'')))
     ((acme_state [])(''context_analysis'' := Some (PyStr (asc ''another analysis'')))) [] =
   industry_analysis_node (canned_tools (Inr (asc ''found'')) (Inr (asc ''ok''))) (acme_state []) []"
  using industry_stage_ignores_context_analysis
    [of "acme_state []" "Some (PyStr (asc ''another analysis''))" "asc ''found''"
        "canned_tools (Inr (asc ''found'')) (Inr (asc ''ok''))" "[]"]
  by blast

subsection \<open>What the prompts embed\<close>

lemma fstring_append:
  "fstring (ps @ qs) state =
     (case fstring ps state of
        Inl e \<Rightarrow> Inl e
      | Inr a \<Rightarrow> (case fstring qs state of Inl e \<Rightarrow> Inl e | Inr b \<Rightarrow> Inr (a @ b)))"
proof (induction ps)
  case Nil
  show ?case by (simp split: sum.splits)
next
  case (Cons p ps)
  then show ?case by (cases p) (auto split: sum.splits option.splits)
qed

lemma fstring_appendI:
  "fstring ps state = Inr a \<Longrightarrow> fstring qs state = Inr b \<Longrightarrow> fstring (ps @ qs) state = Inr (a @ b)"
  by (simp add: fstring_append)

lemma context_prompt_shape:
  assumes "state ''company_name'' = Some c" and "state ''meeting_objective'' = Some ob"
    and "state ''attendees'' = Some a" and "state ''duration'' = Some d"
  shows "\<exists>pre post. \<forall>r. fstring (context_prompt r) state = Inr (pre @ take 3000 r @ post)"
proof -
  have split: "context_prompt r =
      take 18 (context_prompt []) @ [Expr (take 3000 r)] @ drop 19 (context_prompt [])" for r
    by (simp add: context_prompt_def)
  obtain pre where pre: "fstring (take 18 (context_prompt [])) state = Inr pre"
    by (simp add: context_prompt_def assms)
  obtain post where post: "fstring (drop 19 (context_prompt [])) state = Inr post"
    by (simp add: context_prompt_def assms)
  have "fstring (context_prompt r) state = Inr (pre @ take 3000 r @ post)" for r
    unfolding split [of r] by (intro fstring_appendI pre post) simp
  then show ?thesis by blast
qed

lemma industry_prompt_shape:
  assumes "state ''company_name'' = Some c" and "state ''meeting_objective'' = Some ob"
  shows "\<exists>pre post. \<forall>r. fstring (industry_prompt r) state = Inr (pre @ take 3000 r @ post)"
proof -
  have split: "industry_prompt r =
      take 12 (industry_prompt []) @ [Expr (take 3000 r)] @ drop 13 (industry_prompt [])" for r
    by (simp add: industry_prompt_def)
  obtain pre where pre: "fstring (take 12 (industry_prompt [])) state = Inr pre"
    by (simp add: industry_prompt_def assms)
  obtain post where post: "fstring (drop 13 (industry_prompt [])) state = Inr post"
    by (simp add: industry_prompt_def assms)
  have "fstring (industry_prompt r) state = Inr (pre @ take 3000 r @ post)" for r
    unfolding split [of r] by (intro fstring_appendI pre post) simp
  then show ?thesis by blast
qed

text \<open>
  C4. In the two stages that search, the prompt handed to the completion client is a fixed
  text, then the first 3000 characters of the search result, then a fixed text: the two fixed
  texts depend on the state only, so nothing of the result beyond its first 3000 characters
  reaches the prompt, and a result of at most 3000 characters is embedded whole.
\<close>

theorem search_results_truncated:
  assumes "state ''company_name'' = Some c" and "state ''meeting_objective'' = Some ob"
    and "state ''attendees'' = Some a" and "state ''duration'' = Some d"
  shows "(\<exists>q pre post.
            fstring context_query state = Inr q \<and>
            (\<forall>r. fstring (context_prompt r) state = Inr (pre @ take 3000 r @ post)) \<and>
            (\<forall>r. length r \<le> 3000 \<longrightarrow> fstring (context_prompt r) state = Inr (pre @ r @ post)) \<and>
            (\<forall>t w r w1. search_tool t q w = (Inr r, w1) \<longrightarrow>
               context_analysis_node t state w =
                 complete_into t ''context_analysis'' context_failed (pre @ take 3000 r @ post) w1)) \<and>
         (\<exists>q pre post.
            fstring industry_query state = Inr q \<and>
            (\<forall>r. fstring (industry_prompt r) state = Inr (pre @ take 3000 r @ post)) \<and>
            (\<forall>r. length r \<le> 3000 \<longrightarrow> fstring (industry_prompt r) state = Inr (pre @ r @ post)) \<and>
            (\<forall>t w r w1. search_tool t q w = (Inr r, w1) \<longrightarrow>
               industry_analysis_node t state w =
                 complete_into t ''industry_analysis'' industry_failed (pre @ take 3000 r @ post) w1))"
proof (rule conjI)
  obtain q where q: "fstring context_query state = Inr q"
    by (simp add: context_query_def assms)
  obtain pre post where p: "\<And>r. fstring (context_prompt r) state = Inr (pre @ take 3000 r @ post)"
    using context_prompt_shape [of state c ob a d] assms by blast
  have whole: "fstring (context_prompt r) state = Inr (pre @ r @ post)" if "length r \<le> 3000" for r
    using p [of r] that by simp
  have node: "context_analysis_node t state w =
      complete_into t ''context_analysis'' context_failed (pre @ take 3000 r @ post) w1"
    if "search_tool t q w = (Inr r, w1)" for t :: "'w tools" and w r w1
    using that q p [of r] assms(1)
    by (simp add: context_node_unfold context_log_message_eq complete_into_def)
  from q p whole node
  show "\<exists>q pre post.
            fstring context_query state = Inr q \<and>
            (\<forall>r. fstring (context_prompt r) state = Inr (pre @ take 3000 r @ post)) \<and>
            (\<forall>r. length r \<le> 3000 \<longrightarrow> fstring (context_prompt r) state = Inr (pre @ r @ post)) \<and>
            (\<forall>(t :: 'w tools) w r w1. search_tool t q w = (Inr r, w1) \<longrightarrow>
               context_analysis_node t state w =
                 complete_into t ''context_analysis'' context_failed (pre @ take 3000 r @ post) w1)"
    by blast
next
  obtain q where q: "fstring industry_query state = Inr q"
    by (simp add: industry_query_def assms)
  obtain pre post where p: "\<And>r. fstring (industry_prompt r) state = Inr (pre @ take 3000 r @ post)"
    using industry_prompt_shape [of state c ob] assms by blast
  have whole: "fstring (industry_prompt r) state = Inr (pre @ r @ post)" if "length r \<le> 3000" for r
    using p [of r] that by simp
  have node: "industry_analysis_node t state w =
      complete_into t ''industry_analysis'' industry_failed (pre @ take 3000 r @ post) w1"
    if "search_tool t q w = (Inr r, w1)" for t :: "'v tools" and w r w1
    using that q p [of r]
    by (simp add: industry_node_unfold complete_into_def)
  from q p whole node
  show "\<exists>q pre post.
            fstring industry_query state = Inr q \<and>
            (\<forall>r. fstring (industry_prompt r) state = Inr (pre @ take 3000 r @ post)) \<and>
            (\<forall>r. length r \<le> 3000 \<longrightarrow> fstring (industry_prompt r) state = Inr (pre @ r @ post)) \<and>
            (\<forall>(t :: 'v tools) w r w1. search_tool t q w = (Inr r, w1) \<longrightarrow>
               industry_analysis_node t state w =
                 complete_into t ''industry_analysis'' industry_failed (pre @ take 3000 r @ post) w1)"
    by blast
qed

theorem search_results_truncated_witness:
  "\<exists>q pre post.
     context_analysis_node (canned_tools (Inr (replicate 5000 0x78)) (Inr (asc ''ok''))) (acme_state []) [] =
       (Inr [''context_analysis'' \<mapsto> PyStr (asc ''ok'')],
        [Search q, Complete (pre @ replicate 3000 0x78 @ post)])"
proof -
  let ?T = "canned_tools (Inr (replicate 5000 0x78)) (Inr (asc ''ok''))"
  have "\<exists>q pre post.
            fstring context_query (acme_state []) = Inr q \<and>
            (\<forall>r. fstring (context_prompt r) (acme_state []) = Inr (pre @ take 3000 r @ post)) \<and>
            (\<forall>r. length r \<le> 3000 \<longrightarrow> fstring (context_prompt r) (acme_state []) = Inr (pre @ r @ post)) \<and>
            (\<forall>(t :: call list tools) w r w1. search_tool t q w = (Inr r, w1) \<longrightarrow>
               context_analysis_node t (acme_state []) w =
                 complete_into t ''context_analysis'' context_failed (pre @ take 3000 r @ post) w1)"
    by (rule conjunct1 [OF search_results_truncated [where state = "acme_state []", OF acme_inputs]])
  then show ?thesis
  proof (elim exE conjE)
    fix q pre post
    assume n: "\<forall>(t :: call list tools) w r w1. search_tool t q w = (Inr r, w1) \<longrightarrow>
               context_analysis_node t (acme_state []) w =
                 complete_into t ''context_analysis'' context_failed (pre @ take 3000 r @ post) w1"
    have s: "search_tool ?T q [] = (Inr (replicate 5000 0x78), [Search q])"
      by (simp add: canned_tools_def)
    from n [rule_format, OF s] have "context_analysis_node ?T (acme_state []) [] =
        complete_into ?T ''context_analysis'' context_failed
          (pre @ take 3000 (replicate 5000 0x78) @ post) [Search q]"
      .
    then have "context_analysis_node ?T (acme_state []) [] =
       (Inr [''context_analysis'' \<mapsto> PyStr (asc ''ok'')],
        [Search q, Complete (pre @ replicate 3000 0x78 @ post)])"
      by (simp add: complete_into_def canned_tools_def)
    then show ?thesis by (intro exI)
  qed
qed

subsection \<open>Defaults of the strategy prompt\<close>

lemma fstring_GetD_single:
  "fstring [GetD k d] state = Inr (case state k of None \<Rightarrow> d | Some v \<Rightarrow> fmt v)"
  by simp

lemma strategy_prompt_shape:
  assumes "state ''duration'' = Some d" and "state ''meeting_objective'' = Some ob"
    and "state ''attendees'' = Some a"
  shows "\<exists>A B C. \<forall>cv iv.
           fstring strategy_prompt (state(''context_analysis'' := cv, ''industry_analysis'' := iv)) =
             Inr (A @ shown cv @ B @ shown iv @ C)"
proof -
  have split: "strategy_prompt =
      take 5 strategy_prompt @ [GetD ''context_analysis'' not_available] @
      take 4 (drop 6 strategy_prompt) @ [GetD ''industry_analysis'' not_available] @
      drop 11 strategy_prompt"
    by (simp add: strategy_prompt_def not_available_def)
  obtain A where A: "\<And>s. fstring (take 5 strategy_prompt) s = Inr A"
    by (simp add: strategy_prompt_def)
  obtain B where B: "\<And>s. fstring (take 4 (drop 6 strategy_prompt)) s = Inr B"
    by (simp add: strategy_prompt_def)
  obtain C where C: "fstring (drop 11 strategy_prompt) state = Inr C"
    by (simp add: strategy_prompt_def assms)
  have "fstring strategy_prompt (state(''context_analysis'' := cv, ''industry_analysis'' := iv)) =
          Inr (A @ shown cv @ B @ shown iv @ C)" for cv iv
  proof -
    let ?s = "state(''context_analysis'' := cv, ''industry_analysis'' := iv)"
    have "fstring (drop 11 strategy_prompt) ?s =
          fstring (drop 11 strategy_prompt) (state(''context_analysis'' := cv))"
      by (rule fstring_other_key) (simp add: strategy_prompt_def)
    also have "\<dots> = fstring (drop 11 strategy_prompt) state"
      by (rule fstring_other_key) (simp add: strategy_prompt_def)
    finally have C': "fstring (drop 11 strategy_prompt) ?s = Inr C"
      using C by simp
    have c: "fstring [GetD ''context_analysis'' not_available] ?s = Inr (shown cv)"
      by (simp add: shown_def)
    have i: "fstring [GetD ''industry_analysis'' not_available] ?s = Inr (shown iv)"
      by (simp add: shown_def)
    have "fstring (take 5 strategy_prompt @ [GetD ''context_analysis'' not_available] @
      take 4 (drop 6 strategy_prompt) @ [GetD ''industry_analysis'' not_available] @
      drop 11 strategy_prompt) ?s = Inr (A @ shown cv @ B @ shown iv @ C)"
      by (intro fstring_appendI A B C' c i)
    with split show ?thesis by simp
  qed
  then show ?thesis by (intro exI allI)
qed

text \<open>
  C5, as the code has it. The strategy prompt is a fixed text, what \<^verbatim>\<open>state.get\<close> gives for
  \<open>context_analysis\<close>, a fixed text, what it gives for \<open>industry_analysis\<close>, and a fixed text.
  For a key that is missing from the state this is the ``not available'' default; for a key
  that is present it is the stored value as it is, the empty string included. The node hands
  exactly this prompt to the completion client.
\<close>

theorem strategy_prompt_default_for_missing_key:
  assumes "state ''duration'' = Some d" and "state ''meeting_objective'' = Some ob"
    and "state ''attendees'' = Some a"
  shows "(\<exists>A B C. \<forall>cv iv.
            fstring strategy_prompt (state(''context_analysis'' := cv, ''industry_analysis'' := iv)) =
              Inr (A @ shown cv @ B @ shown iv @ C) \<and>
            (\<forall>t w. strategy_development_node t
                      (state(''context_analysis'' := cv, ''industry_analysis'' := iv)) w =
                    complete_into t ''strategy'' strategy_failed
                      (A @ shown cv @ B @ shown iv @ C) w)) \<and>
         shown None = not_available \<and>
         (\<forall>v. shown (Some (PyStr v)) = v)"
proof -
  obtain A B C where p: "\<And>cv iv.
       fstring strategy_prompt (state(''context_analysis'' := cv, ''industry_analysis'' := iv)) =
         Inr (A @ shown cv @ B @ shown iv @ C)"
    using strategy_prompt_shape [of state d ob a] assms by blast
  have n: "strategy_development_node t
             (state(''context_analysis'' := cv, ''industry_analysis'' := iv)) w =
           complete_into t ''strategy'' strategy_failed (A @ shown cv @ B @ shown iv @ C) w"
    for cv iv and t :: "'w tools" and w
    by (simp add: strategy_node_unfold p complete_into_def)
  have "\<forall>cv iv.
            fstring strategy_prompt (state(''context_analysis'' := cv, ''industry_analysis'' := iv)) =
              Inr (A @ shown cv @ B @ shown iv @ C) \<and>
            (\<forall>(t :: 'w tools) w. strategy_development_node t
                      (state(''context_analysis'' := cv, ''industry_analysis'' := iv)) w =
                    complete_into t ''strategy'' strategy_failed
                      (A @ shown cv @ B @ shown iv @ C) w)"
    by (intro allI conjI p n)
  then have "\<exists>A B C. \<forall>cv iv.
            fstring strategy_prompt (state(''context_analysis'' := cv, ''industry_analysis'' := iv)) =
              Inr (A @ shown cv @ B @ shown iv @ C) \<and>
            (\<forall>(t :: 'w tools) w. strategy_development_node t
                      (state(''context_analysis'' := cv, ''industry_analysis'' := iv)) w =
                    complete_into t ''strategy'' strategy_failed
                      (A @ shown cv @ B @ shown iv @ C) w)"
    by (intro exI)
  then show ?thesis by (simp add: shown_def)
qed

lemma acme_outputs_empty:
  "acme_state now ''context_analysis'' = Some (PyStr [])"
  "acme_state now ''industry_analysis'' = Some (PyStr [])"
  by (simp_all add: acme_state_def initial_state_def)

theorem strategy_prompt_default_for_missing_key_witness:
  "\<exists>A B C.
     fstring strategy_prompt (acme_state []) = Inr (A @ B @ C) \<and>
     fstring strategy_prompt
       ((acme_state [])(''context_analysis'' := None, ''industry_analysis'' := None)) =
       Inr (A @ not_available @ B @ not_available @ C)"
proof -
  have "\<exists>A B C. \<forall>cv iv.
            fstring strategy_prompt ((acme_state [])(''context_analysis'' := cv, ''industry_analysis'' := iv)) =
              Inr (A @ shown cv @ B @ shown iv @ C) \<and>
            (\<forall>(t :: call list tools) w. strategy_development_node t
                      ((acme_state [])(''context_analysis'' := cv, ''industry_analysis'' := iv)) w =
                    complete_into t ''strategy'' strategy_failed
                      (A @ shown cv @ B @ shown iv @ C) w)"
    by (rule conjunct1 [OF strategy_prompt_default_for_missing_key
          [where state = "acme_state []", OF acme_inputs(4) acme_inputs(2) acme_inputs(3)]])
  then show ?thesis
  proof (elim exE)
    fix A B C
    assume h: "\<forall>cv iv.
            fstring strategy_prompt ((acme_state [])(''context_analysis'' := cv, ''industry_analysis'' := iv)) =
              Inr (A @ shown cv @ B @ shown iv @ C) \<and>
            (\<forall>(t :: call list tools) w. strategy_development_node t
                      ((acme_state [])(''context_analysis'' := cv, ''industry_analysis'' := iv)) w =
                    complete_into t ''strategy'' strategy_failed
                      (A @ shown cv @ B @ shown iv @ C) w)"
    have same: "(acme_state [])(''context_analysis'' := Some (PyStr []),
                  ''industry_analysis'' := Some (PyStr [])) = acme_state []"
      by (rule ext) (simp add: acme_outputs_empty)
    from h [rule_format, of "Some (PyStr [])" "Some (PyStr [])", THEN conjunct1]
    have present: "fstring strategy_prompt (acme_state []) = Inr (A @ B @ C)"
      by (simp add: same shown_def)
    from h [rule_format, of None None, THEN conjunct1]
    have missing: "fstring strategy_prompt
       ((acme_state [])(''context_analysis'' := None, ''industry_analysis'' := None)) =
       Inr (A @ not_available @ B @ not_available @ C)"
      by (simp add: shown_def)
    from present missing show ?thesis by (intro exI conjI)
  qed
qed

text \<open>
  The claim as written fails: in the state the main block builds, \<open>context_analysis\<close> and
  \<open>industry_analysis\<close> are the empty string, and the prompt the strategy node sends then
  does not contain the ``not available'' text anywhere.
\<close>

theorem empty_field_not_defaulted_counterexample:
  "acme_state [] ''context_analysis'' = Some (PyStr []) \<and>
   snd (strategy_development_node (canned_tools (Inr []) (Inr [])) (acme_state []) []) =
     [Complete (projr (fstring strategy_prompt (acme_state [])))] \<and>
   \<not> isl (fstring strategy_prompt (acme_state [])) \<and>
   \<not> sublist not_available (projr (fstring strategy_prompt (acme_state [])))"
proof (intro conjI)
  show "acme_state [] ''context_analysis'' = Some (PyStr [])"
    by (rule acme_outputs_empty)
  obtain p where p: "fstring strategy_prompt (acme_state []) = Inr p"
    by (simp add: strategy_prompt_def acme_inputs)
  show "snd (strategy_development_node (canned_tools (Inr []) (Inr [])) (acme_state []) []) =
     [Complete (projr (fstring strategy_prompt (acme_state [])))]"
    by (simp add: strategy_node_unfold p canned_tools_def)
  show "\<not> isl (fstring strategy_prompt (acme_state []))"
    by (simp add: p)
  show "\<not> sublist not_available (projr (fstring strategy_prompt (acme_state [])))"
    by (simp add: strategy_prompt_def acme_state_def initial_state_def str_int_def digits.simps
        asc_def nl_def apos_def not_available_def sublist_code)
qed

subsection \<open>The briefing skeleton\<close>

lemma fstring_Item_single: "state k = Some v \<Longrightarrow> fstring [Item k] state = Inr (fmt v)"
  by simp

lemma fstring_Lit_single: "fstring [Lit t] state = Inr t"
  by simp

lemma section_headers_nth:
  "section_headers =
     [section_headers ! 0, section_headers ! 1, section_headers ! 2, section_headers ! 3]"
  by (simp add: section_headers_def)

lemma occur_here: "occur_in_order hs ss \<Longrightarrow> occur_in_order (h # hs) (ps @ h @ ss)"
  by auto

lemma four_in_order:
  assumes "p = a @ h1 @ b @ h2 @ c @ h3 @ d @ h4 @ e"
  shows "occur_in_order [h1, h2, h3, h4] p"
  unfolding assms by (intro occur_here) simp

lemma brief_prompt_shape:
  assumes c: "state ''company_name'' = Some c" and ob: "state ''meeting_objective'' = Some ob"
    and a: "state ''attendees'' = Some a" and d: "state ''duration'' = Some d"
    and p: "fstring brief_prompt state = Inr p"
  shows "\<exists>a0 a1 a2 a3 a4 a5 a6.
           p = a0 @ fmt c @ a1 @ section_headers ! 0 @ a2 @ fmt d @ a3 @ section_headers ! 1 @
               a4 @ section_headers ! 2 @ a5 @ section_headers ! 3 @ a6"
proof -
  let ?ind = "asc ''        ''"
  have split: "brief_prompt =
      take 2 brief_prompt @ [Item ''company_name''] @
      take 20 (drop 3 brief_prompt) @ [Lit (?ind @ section_headers ! 0 @ nl)] @
      take 7 (drop 24 brief_prompt) @ [Item ''duration''] @
      take 2 (drop 32 brief_prompt) @ [Lit (?ind @ section_headers ! 1 @ nl)] @
      take 4 (drop 35 brief_prompt) @ [Lit (?ind @ section_headers ! 2 @ nl)] @
      take 4 (drop 40 brief_prompt) @ [Lit (?ind @ section_headers ! 3 @ nl)] @
      drop 45 brief_prompt"
    by (simp add: brief_prompt_def section_headers_def asc_def)
  obtain a0 where a0: "fstring (take 2 brief_prompt) state = Inr a0"
    by (simp add: brief_prompt_def)
  obtain a1 where a1: "fstring (take 20 (drop 3 brief_prompt)) state = Inr a1"
    by (simp add: brief_prompt_def c)
  obtain a2 where a2: "fstring (take 7 (drop 24 brief_prompt)) state = Inr a2"
    by (simp add: brief_prompt_def ob a)
  obtain a3 where a3: "fstring (take 2 (drop 32 brief_prompt)) state = Inr a3"
    by (simp add: brief_prompt_def)
  obtain a4 where a4: "fstring (take 4 (drop 35 brief_prompt)) state = Inr a4"
    by (simp add: brief_prompt_def)
  obtain a5 where a5: "fstring (take 4 (drop 40 brief_prompt)) state = Inr a5"
    by (simp add: brief_prompt_def)
  obtain a6 where a6: "fstring (drop 45 brief_prompt) state = Inr a6"
    by (simp add: brief_prompt_def)
  have "fstring (take 2 brief_prompt @ [Item ''company_name''] @
      take 20 (drop 3 brief_prompt) @ [Lit (?ind @ section_headers ! 0 @ nl)] @
      take 7 (drop 24 brief_prompt) @ [Item ''duration''] @
      take 2 (drop 32 brief_prompt) @ [Lit (?ind @ section_headers ! 1 @ nl)] @
      take 4 (drop 35 brief_prompt) @ [Lit (?ind @ section_headers ! 2 @ nl)] @
      take 4 (drop 40 brief_prompt) @ [Lit (?ind @ section_headers ! 3 @ nl)] @
      drop 45 brief_prompt) state =
    Inr (a0 @ fmt c @ a1 @ (?ind @ section_headers ! 0 @ nl) @ a2 @ fmt d @ a3 @
         (?ind @ section_headers ! 1 @ nl) @ a4 @ (?ind @ section_headers ! 2 @ nl) @ a5 @
         (?ind @ section_headers ! 3 @ nl) @ a6)"
    by (intro fstring_appendI a0 a1 a2 a3 a4 a5 a6 fstring_Lit_single
          fstring_Item_single [of state "''company_name''" c, OF c]
          fstring_Item_single [of state "''duration''" d, OF d])
  with split p have
    "p = a0 @ fmt c @ (a1 @ ?ind) @ section_headers ! 0 @ (nl @ a2) @ fmt d @ (a3 @ ?ind) @
         section_headers ! 1 @ (nl @ a4 @ ?ind) @ section_headers ! 2 @ (nl @ a5 @ ?ind) @
         section_headers ! 3 @ (nl @ a6)"
    by simp
  then show ?thesis by (intro exI)
qed

lemma str_int_60: "str_int 60 = asc ''60''"
  by (simp add: str_int_def digits.simps asc_def)

text \<open>
  C6, as the code has it. In the end-to-end scenario with clients that answer every call with
  a canned text, the run makes six calls; \<open>executive_brief\<close> is the canned completion itself,
  and it is the prompt sent to the completion client by the brief stage that contains
  \<open>Acme\<close>, \<open>60\<close> and the four section headers, the headers in their order.
\<close>

theorem brief_prompt_has_skeleton:
  assumes "5 \<le> fuel"
  shows "\<exists>final tr q1 p1 q2 p2 p3 p4.
           invoke fuel (build_workflow (canned_tools (Inr cs) (Inr cl))) (acme_state now) [] =
             (Some (Inr (final, tr)),
              [Search q1, Complete p1, Search q2, Complete p2, Complete p3, Complete p4]) \<and>
           final ''executive_brief'' = Some (PyStr cl) \<and>
           sublist (asc ''Acme'') p4 \<and> sublist (asc ''60'') p4 \<and>
           occur_in_order section_headers p4"
proof -
  let ?s3 = "(acme_state now)(''context_analysis'' \<mapsto> PyStr cl, ''industry_analysis'' \<mapsto> PyStr cl,
              ''strategy'' \<mapsto> PyStr cl)"
  let ?final = "(acme_state now)(''context_analysis'' \<mapsto> PyStr cl, ''industry_analysis'' \<mapsto> PyStr cl,
              ''strategy'' \<mapsto> PyStr cl, ''executive_brief'' \<mapsto> PyStr cl)"
  let ?tr = "[(''context'', [''context_analysis'' \<mapsto> PyStr cl]),
             (''industry'', [''industry_analysis'' \<mapsto> PyStr cl]),
             (''strategy'', [''strategy'' \<mapsto> PyStr cl]),
             (''brief'', [''executive_brief'' \<mapsto> PyStr cl])]"
  have k: "?s3 ''company_name'' = Some (PyStr (asc ''Acme''))"
    "?s3 ''meeting_objective'' = Some (PyStr (asc ''Discuss partnership''))"
    "?s3 ''attendees'' = Some (PyStr (asc ''John - CEO''))"
    "?s3 ''duration'' = Some (PyInt 60)"
    by (simp_all add: acme_inputs)
  have brief: "?final ''executive_brief'' = Some (PyStr cl)"
    by simp
  from canned_workflow [where state = "acme_state now" and fuel = fuel and cs = cs and cl = cl
      and w = "[]", OF acme_inputs assms]
  show ?thesis
  proof (elim exE conjE)
    fix q1 p1 q2 p2 p3 p4
    assume p4: "fstring brief_prompt ?s3 = Inr p4"
      and run: "invoke fuel (build_workflow (canned_tools (Inr cs) (Inr cl))) (acme_state now) [] =
         (Some (Inr (?final, ?tr)),
          [] @ [Search q1, Complete p1, Search q2, Complete p2, Complete p3, Complete p4])"
    have "\<exists>a0 a1 a2 a3 a4 a5 a6.
           p4 = a0 @ asc ''Acme'' @ a1 @ section_headers ! 0 @ a2 @ asc ''60'' @ a3 @
               section_headers ! 1 @ a4 @ section_headers ! 2 @ a5 @ section_headers ! 3 @ a6"
      using brief_prompt_shape [where state = ?s3, OF k p4] by (simp only: fmt.simps str_int_60)
    then have "sublist (asc ''Acme'') p4 \<and> sublist (asc ''60'') p4 \<and>
        occur_in_order section_headers p4"
    proof (elim exE)
      fix a0 a1 a2 a3 a4 a5 a6
      assume shape: "p4 = a0 @ asc ''Acme'' @ a1 @ section_headers ! 0 @ a2 @ asc ''60'' @ a3 @
               section_headers ! 1 @ a4 @ section_headers ! 2 @ a5 @ section_headers ! 3 @ a6"
      have acme: "sublist (asc ''Acme'') p4"
        unfolding shape by (rule sublist_appendI)
      have "p4 = (a0 @ asc ''Acme'' @ a1 @ section_headers ! 0 @ a2) @ asc ''60'' @
             (a3 @ section_headers ! 1 @ a4 @ section_headers ! 2 @ a5 @ section_headers ! 3 @ a6)"
        unfolding shape by (simp only: append_assoc)
      then have sixty: "sublist (asc ''60'') p4"
        by (simp only: sublist_appendI)
      have "p4 = (a0 @ asc ''Acme'' @ a1) @ section_headers ! 0 @ (a2 @ asc ''60'' @ a3) @
               section_headers ! 1 @ a4 @ section_headers ! 2 @ a5 @ section_headers ! 3 @ a6"
        unfolding shape by (simp only: append_assoc)
      then have "occur_in_order
          [section_headers ! 0, section_headers ! 1, section_headers ! 2, section_headers ! 3] p4"
        by (rule four_in_order)
      then have headers: "occur_in_order section_headers p4"
        by (subst section_headers_nth)
      from acme sixty headers show ?thesis by (intro conjI)
    qed
    then have acme: "sublist (asc ''Acme'') p4" and sixty: "sublist (asc ''60'') p4"
      and headers: "occur_in_order section_headers p4"
      by (rule conjunct1, rule conjunct2 [THEN conjunct1], rule conjunct2 [THEN conjunct2])
    from run have run': "invoke fuel (build_workflow (canned_tools (Inr cs) (Inr cl))) (acme_state now) [] =
         (Some (Inr (?final, ?tr)),
          [Search q1, Complete p1, Search q2, Complete p2, Complete p3, Complete p4])"
      by (simp only: append_Nil)
    show ?thesis
      by (intro exI conjI) (rule run' brief acme sixty headers)+
  qed
qed

theorem brief_prompt_has_skeleton_witness:
  "\<exists>final tr q1 p1 q2 p2 p3 p4.
     invoke 5 (build_workflow (canned_tools (Inr (asc ''found'')) (Inr (asc ''ok'')))) (acme_state []) [] =
       (Some (Inr (final, tr)),
        [Search q1, Complete p1, Search q2, Complete p2, Complete p3, Complete p4]) \<and>
     final ''executive_brief'' = Some (PyStr (asc ''ok'')) \<and>
     sublist (asc ''Acme'') p4 \<and> sublist (asc ''60'') p4 \<and>
     occur_in_order section_headers p4"
  by (rule brief_prompt_has_skeleton [OF order_refl])

text \<open>
  The claim as written fails: with the completion client answering \<open>ok\<close>, the final
  \<open>executive_brief\<close> is \<open>ok\<close>, which does not contain \<open>Acme\<close>.
\<close>

theorem brief_is_the_completion_counterexample:
  "result_field
     (invoke 5 (build_workflow (canned_tools (Inr (asc ''found'')) (Inr (asc ''ok'')))) (acme_state []) [])
     ''executive_brief'' = Some (PyStr (asc ''ok'')) \<and>
   \<not> sublist (asc ''Acme'') (asc ''ok'')"
proof (rule conjI)
  show "result_field
     (invoke 5 (build_workflow (canned_tools (Inr (asc ''found'')) (Inr (asc ''ok'')))) (acme_state []) [])
     ''executive_brief'' = Some (PyStr (asc ''ok''))"
    by (rule canned_acme_brief)
  show "\<not> sublist (asc ''Acme'') (asc ''ok'')"
    by (simp add: asc_def sublist_code)
qed

end
